theory Spec2Isabelle
  imports Complex_Main "HOL-Library.Word"
begin

unbundle bit_operations_syntax

section \<open>Data model of the live coaching session\<close>

text \<open>
  The component under study is \<^verbatim>\<open>LiveSession\<close> (a React function component).
  Its state lives in React state cells (\<^verbatim>\<open>useState\<close>) and in mutable references
  (\<^verbatim>\<open>useRef\<close>). The embedding collects both in one record that every handler
  takes and returns. What a handler does to the outside world (messages sent on the
  remote channel, audio sources started, vibration requests, calls of the \<^verbatim>\<open>onExit\<close>
  property, teardown calls) is appended to logs kept in the same record, in program order.
\<close>

subsection \<open>Workout plan (types.ts)\<close>

record Exercise =
  name :: string
  durationOrReps :: string
  description :: string
  tips :: string

record WorkoutPlan =
  title :: string
  duration :: string
  difficulty :: string
  exercises :: "Exercise list"

subsection \<open>Overlay state\<close>

text \<open>
  \<^verbatim>\<open>FormStatus\<close> and \<^verbatim>\<open>FocusArea\<close> are TypeScript unions of string literals. They are
  erased at run time, and the inbound handler stores \<^verbatim>\<open>fc.args as any\<close> without a
  check, so the fields hold arbitrary strings. The declared members are listed below.
\<close>

record OverlayState =
  status :: string
  feedback :: string
  focusArea :: string
  lastUpdated :: nat

definition FormStatus :: "string set" where
  "FormStatus = {''correct'', ''warning'', ''incorrect'', ''scanning''}"

definition FocusArea :: "string set" where
  "FocusArea = {''head'', ''shoulders'', ''torso'', ''hips'', ''legs'', ''general''}"

subsection \<open>Session state\<close>

datatype connection_status = Disconnected | Connecting | Connected

text \<open>
  A resource the component holds through a reference: an audio context, the camera
  stream shown by the video element, the pose tracker. \<open>Released\<close> is a context or
  tracker after \<^verbatim>\<open>close()\<close>, a stream after \<^verbatim>\<open>stop()\<close> on its tracks.
\<close>

datatype lifecycle = Active | Released

text \<open>What the component sends on the remote channel.\<close>

datatype outbound =
    ToolResponse string string string  \<comment> \<open>\<^verbatim>\<open>sendToolResponse\<close>: name, id, result\<close>
  | SendText string                    \<comment> \<open>\<^verbatim>\<open>session.send({text})\<close>\<close>
  | RealtimeInput string string        \<comment> \<open>\<^verbatim>\<open>sendRealtimeInput({media})\<close>: mimeType, data\<close>

text \<open>The calls of the effect cleanup on the resources it releases.\<close>

datatype teardown_call =
    StopTracks | ClosePlaybackContext | CloseCaptureContext | ClosePose

text \<open>
  The variables a callback created by \<^verbatim>\<open>connectToLive\<close> reads from the enclosing
  render: they are fixed when the callback is created and do not follow later updates
  of the React state. \<^verbatim>\<open>connectionStatus\<close> is among them although it is not among the
  dependencies of the callback (line 268).
\<close>

record closure =
  closure_currentStep :: nat
  closure_micActive :: bool
  closure_connectionStatus :: connection_status

record live_session =
  \<comment> \<open>React state\<close>
  currentStep :: nat
  micActive :: bool
  aiSpeaking :: bool
  connectionStatus :: connection_status
  permissionDenied :: bool
  \<comment> \<open>references\<close>
  overlayStateRef :: OverlayState
  audioContextRef :: "lifecycle option"
  inputAudioContextRef :: "lifecycle option"
  sessionPromiseRef :: "nat option"
  nextStartTimeRef :: real
  poseInstanceRef :: "lifecycle option"
  videoRef :: bool
  srcObject :: "lifecycle option"
  \<comment> \<open>the callbacks installed by \<^verbatim>\<open>connectToLive\<close>, given by what their closure holds\<close>
  callbacks :: "closure option"
  \<comment> \<open>calls suspended at an \<^verbatim>\<open>await\<close>, oldest first, each with the closure it runs in\<close>
  pendingCamera :: "closure list"
  pendingMicrophone :: "closure list"
  \<comment> \<open>logs of effects, oldest first\<close>
  channels :: nat
  sent :: "outbound list"
  scheduled :: "(real \<times> real) list"
  haptics :: "nat list list"
  exits :: nat
  teardown :: "teardown_call list"
  statusLog :: "connection_status list"

text \<open>
  \<^verbatim>\<open>sessionPromiseRef.current\<close> holds the promise returned by \<^verbatim>\<open>ai.live.connect\<close>; the
  model keeps the number of the channel it resolves to, and \<open>channels\<close> counts the
  channels opened so far. \<open>videoRef\<close> says whether \<^verbatim>\<open>videoRef.current\<close> is set, and
  \<open>srcObject\<close> is the stream of the video element. \<open>pendingCamera\<close> holds the runs of
  \<^verbatim>\<open>startCamera\<close> that wait for the camera request (line 469), \<open>pendingMicrophone\<close> the
  runs of \<^verbatim>\<open>connectToLive\<close> that wait for the microphone request (line 161); nothing
  cancels a run that waits. \<open>callbacks\<close> keeps the callbacks installed last.
  \<open>scheduled\<close> lists the buffer sources started, each with its start time and the
  duration of its buffer. \<open>statusLog\<close> lists the calls of \<^verbatim>\<open>setConnectionStatus\<close>.

  The state at the first effect run; \<open>now\<close> is \<^verbatim>\<open>Date.now()\<close> at the first render.
\<close>

definition initial :: "nat \<Rightarrow> live_session" where
  "initial now = \<lparr> currentStep = 0, micActive = True, aiSpeaking = False,
     connectionStatus = Disconnected, permissionDenied = False,
     overlayStateRef = \<lparr> status = ''scanning'', feedback = ''Aligning body...'',
                          focusArea = ''general'', lastUpdated = now \<rparr>,
     audioContextRef = None, inputAudioContextRef = None, sessionPromiseRef = None,
     nextStartTimeRef = 0, poseInstanceRef = None, videoRef = True, srcObject = None,
     callbacks = None, pendingCamera = [], pendingMicrophone = [],
     channels = 0, sent = [], scheduled = [], haptics = [],
     exits = 0, teardown = [], statusLog = [] \<rparr>"

text \<open>The closure of a callback created by the render of a state.\<close>

definition render_closure :: "live_session \<Rightarrow> closure" where
  "render_closure s = \<lparr> closure_currentStep = currentStep s, closure_micActive = micActive s,
                        closure_connectionStatus = connectionStatus s \<rparr>"

definition setConnectionStatus :: "connection_status \<Rightarrow> live_session \<Rightarrow> live_session" where
  "setConnectionStatus c s = s\<lparr> connectionStatus := c, statusLog := statusLog s @ [c] \<rparr>"

text \<open>\<^verbatim>\<open>triggerHaptic(pattern)\<close>: a vibration request (a number is a one-element pattern).\<close>

definition triggerHaptic :: "nat list \<Rightarrow> live_session \<Rightarrow> live_session" where
  "triggerHaptic pattern s = s\<lparr> haptics := haptics s @ [pattern] \<rparr>"

text \<open>
  \<^verbatim>\<open>sessionPromiseRef.current?.then(session => ...)\<close>: the sends happen when the
  reference holds a session, and not at all when it is null.
\<close>

definition with_session :: "outbound list \<Rightarrow> live_session \<Rightarrow> live_session" where
  "with_session ms s =
     (case sessionPromiseRef s of None \<Rightarrow> s | Some _ \<Rightarrow> s\<lparr> sent := sent s @ ms \<rparr>)"

section \<open>Exercise progression\<close>

text \<open>
  \<^verbatim>\<open>handleNextStep(functionCallId)\<close>, lines 270-299. The manual button passes the
  literal \<^verbatim>\<open>'manual'\<close>, the remote tool call passes its invocation id. The body of the
  state updater runs once per call, on the previous index \<open>prev\<close>:
  \<^item> a manual advance requests a vibration and sends nothing;
  \<^item> any other id sends the tool response and then one text: the name of the next
    exercise when \<open>next\<close> is in range, \<^verbatim>\<open>Workout complete!\<close> otherwise;
  \<^item> when \<open>next\<close> is out of range \<^verbatim>\<open>onExit()\<close> is called and the index stays \<open>prev\<close>.
\<close>

definition announcement :: "WorkoutPlan \<Rightarrow> nat \<Rightarrow> string" where
  "announcement plan next =
     (if next < length (exercises plan)
      then ''Next up: '' @ name (exercises plan ! next) @ ''.''
      else ''Workout complete!'')"

definition handleNextStep :: "WorkoutPlan \<Rightarrow> string \<Rightarrow> live_session \<Rightarrow> live_session" where
  "handleNextStep plan functionCallId s =
     (let prev = currentStep s;
          next = prev + 1;
          s1 = (if functionCallId = ''manual'' then triggerHaptic [200] s else s);
          s2 = (if functionCallId \<noteq> ''manual''
                then with_session
                       [ToolResponse ''nextExercise'' functionCallId ''Moved to next'',
                        SendText (announcement plan next)] s1
                else s1)
      in if next \<ge> length (exercises plan)
         then s2\<lparr> exits := exits s2 + 1 \<rparr>
         else s2\<lparr> currentStep := next \<rparr>)"

text \<open>A run of advances, each identified by the id it passes.\<close>

fun advances :: "WorkoutPlan \<Rightarrow> string list \<Rightarrow> live_session \<Rightarrow> live_session" where
  "advances plan [] s = s"
| "advances plan (i # is) s = advances plan is (handleNextStep plan i s)"

text \<open>The texts sent on the channel, oldest first.\<close>

fun texts :: "outbound list \<Rightarrow> string list" where
  "texts [] = []"
| "texts (SendText t # ms) = t # texts ms"
| "texts (_ # ms) = texts ms"

section \<open>Audio codec\<close>

subsection \<open>Base64 (\<^verbatim>\<open>btoa\<close>, \<^verbatim>\<open>atob\<close>)\<close>

text \<open>
  A JavaScript binary string is a string whose code units are all below 256; HOL's
  \<^typ>\<open>char\<close> is exactly such a unit. \<^verbatim>\<open>btoa\<close> is RFC 4648 base64 with padding;
  \<^verbatim>\<open>atob\<close> is the forgiving decoder of the HTML standard: it drops ASCII whitespace,
  accepts input with or without padding, and throws \<^verbatim>\<open>InvalidCharacterError\<close> on any
  other input.
\<close>

definition b64_char :: "nat \<Rightarrow> char" where
  "b64_char n =
     (if n < 26 then char_of (n + 65)
      else if n < 52 then char_of (n + 71)
      else if n < 62 then char_of (n - 4)
      else if n = 62 then CHR ''+'' else CHR ''/'')"

definition b64_value :: "char \<Rightarrow> nat option" where
  "b64_value c =
     (let k = (of_char c :: nat) in
      if 65 \<le> k \<and> k \<le> 90 then Some (k - 65)
      else if 97 \<le> k \<and> k \<le> 122 then Some (k - 71)
      else if 48 \<le> k \<and> k \<le> 57 then Some (k + 4)
      else if c = CHR ''+'' then Some 62
      else if c = CHR ''/'' then Some 63
      else None)"

fun btoa :: "string \<Rightarrow> string" where
  "btoa [] = []"
| "btoa [a] =
     (let x = (of_char a :: nat)
      in [b64_char (x div 4), b64_char (x mod 4 * 16), CHR ''='', CHR ''=''])"
| "btoa [a, b] =
     (let x = (of_char a :: nat); y = (of_char b :: nat)
      in [b64_char (x div 4), b64_char (x mod 4 * 16 + y div 16),
          b64_char (y mod 16 * 4), CHR ''=''])"
| "btoa (a # b # c # rest) =
     (let x = (of_char a :: nat); y = (of_char b :: nat); z = (of_char c :: nat)
      in b64_char (x div 4) # b64_char (x mod 4 * 16 + y div 16) #
         b64_char (y mod 16 * 4 + z div 64) # b64_char (z mod 64) # btoa rest)"

definition ascii_whitespace :: "char \<Rightarrow> bool" where
  "ascii_whitespace c = ((of_char c :: nat) \<in> {9, 10, 12, 13, 32})"

text \<open>Up to two trailing \<open>=\<close> are removed when the length is a multiple of four.\<close>

definition strip_padding :: "string \<Rightarrow> string" where
  "strip_padding d =
     (if length d mod 4 = 0 \<and> d \<noteq> [] \<and> last d = CHR ''=''
      then (if butlast d \<noteq> [] \<and> last (butlast d) = CHR ''=''
            then butlast (butlast d) else butlast d)
      else d)"

text \<open>
  Four sextets give three bytes; a final group of two gives one byte and of three gives
  two bytes, the bits left over being discarded.
\<close>

fun sextets_bytes :: "nat list \<Rightarrow> nat list" where
  "sextets_bytes (p # q # r # t # rest) =
     (p * 4 + q div 16) # (q mod 16 * 16 + r div 4) # (r mod 4 * 64 + t) # sextets_bytes rest"
| "sextets_bytes [p, q, r] = [p * 4 + q div 16, q mod 16 * 16 + r div 4]"
| "sextets_bytes [p, q] = [p * 4 + q div 16]"
| "sextets_bytes _ = []"

datatype js_error = InvalidCharacterError | RangeError | NotSupportedError

definition atob :: "string \<Rightarrow> js_error + string" where
  "atob base64 =
     (let d = strip_padding (filter (\<lambda>c. \<not> ascii_whitespace c) base64)
      in if length d mod 4 = 1 then Inl InvalidCharacterError
         else case those (map b64_value d) of
                None \<Rightarrow> Inl InvalidCharacterError
              | Some vs \<Rightarrow> Inr (map char_of (sextets_bytes vs)))"

subsection \<open>Typed arrays\<close>

text \<open>
  Storing a number in an \<^verbatim>\<open>Int16Array\<close> applies ECMAScript's ToInt16: the number is
  truncated towards zero and reduced modulo \<open>2^16\<close> into the signed range. A sample is
  a finite \<^verbatim>\<open>Float32Array\<close> element, modelled by the real number it denotes; the
  product with 32768 and the quotient by 32768 are exact in binary floating point.
\<close>

definition js_truncate :: "real \<Rightarrow> int" where
  "js_truncate x = (if 0 \<le> x then \<lfloor>x\<rfloor> else \<lceil>x\<rceil>)"

definition ToInt16 :: "real \<Rightarrow> 16 word" where
  "ToInt16 x = word_of_int (js_truncate x)"

text \<open>
  \<^verbatim>\<open>new Uint8Array(int16.buffer)\<close> and \<^verbatim>\<open>new Int16Array(bytes.buffer)\<close> view the same
  buffer in little-endian order: low byte first. The second throws \<^verbatim>\<open>RangeError\<close> when
  the byte length is odd.
\<close>

fun Uint8Array_of :: "16 word list \<Rightarrow> 8 word list" where
  "Uint8Array_of [] = []"
| "Uint8Array_of (w # ws) = ucast w # ucast (drop_bit 8 w) # Uint8Array_of ws"

fun Int16Array_of :: "8 word list \<Rightarrow> js_error + 16 word list" where
  "Int16Array_of [] = Inr []"
| "Int16Array_of [b] = Inl RangeError"
| "Int16Array_of (lo # hi # bs) =
     (case Int16Array_of bs of
        Inl e \<Rightarrow> Inl e
      | Inr ws \<Rightarrow> Inr ((ucast lo + push_bit 8 (ucast hi)) # ws))"

definition fromCharCode :: "8 word \<Rightarrow> char" where
  "fromCharCode b = char_of (unat b)"

definition charCodeAt :: "char \<Rightarrow> 8 word" where
  "charCodeAt c = word_of_nat (of_char c)"

subsection \<open>\<^verbatim>\<open>createPcmBlob\<close> and \<^verbatim>\<open>decodeAudioData\<close>\<close>

definition PCM_SAMPLE_RATE :: nat where
  "PCM_SAMPLE_RATE = 24000"

text \<open>\<^verbatim>\<open>createPcmBlob\<close>, lines 72-89: the pair of \<^verbatim>\<open>data\<close> and \<^verbatim>\<open>mimeType\<close>.\<close>

definition createPcmBlob :: "real list \<Rightarrow> string \<times> string" where
  "createPcmBlob data =
     (let int16 = map (\<lambda>x. ToInt16 (x * 32768)) data;
          bytes = Uint8Array_of int16;
          binary = map fromCharCode bytes;
          base64 = btoa binary
      in (base64, ''audio/pcm;rate=16000''))"

text \<open>
  \<^verbatim>\<open>decodeAudioData\<close>, lines 91-107. The result is the mono buffer: its samples and
  its sample rate. \<^verbatim>\<open>createBuffer\<close> throws \<^verbatim>\<open>NotSupportedError\<close> for a length of
  zero. The context argument only serves to create the buffer and is left out.
\<close>

record AudioBuffer =
  channelData :: "real list"
  sampleRate :: nat

definition buffer_duration :: "AudioBuffer \<Rightarrow> real" where
  "buffer_duration b = real (length (channelData b)) / real (sampleRate b)"

definition decodeAudioData :: "string \<Rightarrow> js_error + AudioBuffer" where
  "decodeAudioData base64 =
     (case atob base64 of
        Inl e \<Rightarrow> Inl e
      | Inr binaryString \<Rightarrow>
          (let bytes = map charCodeAt binaryString
           in case Int16Array_of bytes of
                Inl e \<Rightarrow> Inl e
              | Inr dataInt16 \<Rightarrow>
                  (let float32 = map (\<lambda>w. real_of_int (sint w) / 32768) dataInt16
                   in if length float32 = 0 then Inl NotSupportedError
                      else Inr \<lparr> channelData = float32, sampleRate = PCM_SAMPLE_RATE \<rparr>)))"

section \<open>Inbound messages\<close>

text \<open>
  What \<^verbatim>\<open>onmessage\<close> reads of a \<^verbatim>\<open>LiveServerMessage\<close>: the inline data of the first
  part of the model turn (absent when any link of the optional chain is), and the
  function calls of \<^verbatim>\<open>toolCall\<close>. The arguments of a call are read as the three
  properties \<^verbatim>\<open>status\<close>, \<^verbatim>\<open>feedback\<close> and \<^verbatim>\<open>focusArea\<close>; they are strings the remote
  side chose.
\<close>

record feedback_args =
  arg_status :: string
  arg_feedback :: string
  arg_focusArea :: string

record FunctionCall =
  fc_name :: string
  fc_id :: string
  fc_args :: feedback_args

record LiveServerMessage =
  audioData :: "string option"
  toolCall :: "FunctionCall list option"

text \<open>The \<^verbatim>\<open>updateFormFeedback\<close> branch, lines 234-255; \<open>now\<close> is \<^verbatim>\<open>Date.now()\<close>.\<close>

definition updateFormFeedback :: "nat \<Rightarrow> FunctionCall \<Rightarrow> live_session \<Rightarrow> live_session" where
  "updateFormFeedback now fc s =
     (let args = fc_args fc;
          s1 = (if arg_status args = ''incorrect'' then triggerHaptic [100, 50, 100] s else s);
          s2 = s1\<lparr> overlayStateRef :=
                 \<lparr> status = arg_status args, feedback = arg_feedback args,
                   focusArea = arg_focusArea args, lastUpdated = now \<rparr> \<rparr>
      in with_session [ToolResponse ''updateFormFeedback'' (fc_id fc) ''Overlay updated''] s2)"

text \<open>The loop over \<^verbatim>\<open>msg.toolCall.functionCalls\<close>, lines 229-258.\<close>

fun functionCalls :: "WorkoutPlan \<Rightarrow> nat \<Rightarrow> FunctionCall list \<Rightarrow> live_session \<Rightarrow> live_session" where
  "functionCalls plan now [] s = s"
| "functionCalls plan now (fc # fcs) s =
     functionCalls plan now fcs
       (if fc_name fc = ''nextExercise''
        then handleNextStep plan (fc_id fc) (triggerHaptic [200] s)
        else if fc_name fc = ''updateFormFeedback''
        then updateFormFeedback now fc s
        else s)"

definition tools :: "WorkoutPlan \<Rightarrow> nat \<Rightarrow> LiveServerMessage \<Rightarrow> live_session \<Rightarrow> live_session" where
  "tools plan now msg s =
     (case toolCall msg of None \<Rightarrow> s | Some fcs \<Rightarrow> functionCalls plan now fcs s)"

text \<open>
  \<^verbatim>\<open>onmessage\<close>, lines 210-259; \<open>currentTime\<close> is \<^verbatim>\<open>ctx.currentTime\<close> when the buffer
  has been decoded. The audio branch is taken for a non-empty payload when the playback
  context reference is set (\<open>audio_payload\<close>). An exception of
  \<^verbatim>\<open>decodeAudioData\<close> is not caught: it ends the handler (the promise of the
  \<^verbatim>\<open>async\<close> function is rejected) after the two statements before the \<^verbatim>\<open>await\<close>,
  so nothing is scheduled and the tool calls of the same message are not reached. The
  result is the exception, if any, and the session state the handler leaves. The timer
  that resets \<^verbatim>\<open>aiSpeaking\<close> when a source ends is left out.
\<close>

definition audio_payload :: "LiveServerMessage \<Rightarrow> live_session \<Rightarrow> string option" where
  "audio_payload msg s =
     (case audioData msg of
        None \<Rightarrow> None
      | Some d \<Rightarrow> if d \<noteq> [] \<and> audioContextRef s \<noteq> None then Some d else None)"

definition onmessage ::
  "WorkoutPlan \<Rightarrow> real \<Rightarrow> nat \<Rightarrow> LiveServerMessage \<Rightarrow> live_session \<Rightarrow> js_error option \<times> live_session"
where
  "onmessage plan currentTime now msg s =
     (case audio_payload msg s of
        Some d \<Rightarrow>
          (let s1 = triggerHaptic [50] (s\<lparr> aiSpeaking := True \<rparr>)
           in case decodeAudioData d of
                Inl e \<Rightarrow> (Some e, s1)
              | Inr buffer \<Rightarrow>
                  (let startTime = max currentTime (nextStartTimeRef s1);
                       s2 = s1\<lparr> scheduled := scheduled s1 @ [(startTime, buffer_duration buffer)],
                               nextStartTimeRef := startTime + buffer_duration buffer \<rparr>
                   in (None, tools plan now msg s2)))
      | None \<Rightarrow> (None, tools plan now msg s))"

section \<open>Connecting, capturing and tearing down\<close>

text \<open>
  What the platform answers when the component asks: whether \<^verbatim>\<open>process.env.API_KEY\<close> is
  set, whether the camera and the microphone requests of \<^verbatim>\<open>getUserMedia\<close> succeed, and
  whether \<^verbatim>\<open>window.Pose\<close> is loaded.
\<close>

record platform =
  apiKey :: bool
  cameraGranted :: bool
  microphoneGranted :: bool
  poseAvailable :: bool

text \<open>
  \<^verbatim>\<open>connectToLive\<close>, lines 151-268, in the two stretches between which it waits for the
  microphone. \<open>c\<close> is the closure of the callback: the guard of line 152 tests the
  \<^verbatim>\<open>connectionStatus\<close> that the closure holds, not the status of the state. The first
  stretch sets the status, creates the client and the two audio contexts, and asks for
  the microphone; a missing key makes \<^verbatim>\<open>getAIClient\<close> throw, which reaches the
  \<^verbatim>\<open>catch\<close> (status back to disconnected). The second stretch runs when the request is
  answered: a refusal reaches the \<^verbatim>\<open>catch\<close>; otherwise the capture handler is installed
  on the context that the reference holds then, and the channel is opened. Creating the
  nodes is taken not to throw.
\<close>

definition connectToLive :: "platform \<Rightarrow> closure \<Rightarrow> live_session \<Rightarrow> live_session" where
  "connectToLive env c s =
     (if closure_connectionStatus c = Connected \<or> closure_connectionStatus c = Connecting then s
      else
        (let s1 = setConnectionStatus Connecting s
         in if \<not> apiKey env then setConnectionStatus Disconnected s1
            else s1\<lparr> audioContextRef := Some Active, inputAudioContextRef := Some Active,
                    pendingMicrophone := pendingMicrophone s1 @ [c] \<rparr>))"

definition connectToLive_resume :: "platform \<Rightarrow> live_session \<Rightarrow> live_session" where
  "connectToLive_resume env s =
     (case pendingMicrophone s of
        [] \<Rightarrow> s
      | c # cs \<Rightarrow>
          (let s1 = s\<lparr> pendingMicrophone := cs \<rparr>
           in if \<not> microphoneGranted env then setConnectionStatus Disconnected s1
              else s1\<lparr> callbacks := Some c,
                      sessionPromiseRef := Some (channels s1),
                      channels := channels s1 + 1 \<rparr>))"

text \<open>
  \<^verbatim>\<open>onopen\<close>, lines 204-209, and \<^verbatim>\<open>onclose\<close>, line 260. The greeting reads the
  exercise at the index the closure holds; for an index out of range the property access
  throws inside the promise callback and nothing is sent.
\<close>

definition onopen :: "WorkoutPlan \<Rightarrow> live_session \<Rightarrow> live_session" where
  "onopen plan s =
     (let s1 = setConnectionStatus Connected s
      in case callbacks s1 of
           None \<Rightarrow> s1
         | Some c \<Rightarrow>
             if closure_currentStep c < length (exercises plan)
             then with_session
                    [SendText (''Starting '' @ name (exercises plan ! closure_currentStep c) @
                               ''. Let's see your form.'')] s1
             else s1)"

definition onclose :: "live_session \<Rightarrow> live_session" where
  "onclose s = setConnectionStatus Disconnected s"

text \<open>
  \<^verbatim>\<open>processor.onaudioprocess\<close>, lines 165-172. \<open>captured_micActive\<close> is the
  \<^verbatim>\<open>micActive\<close> of the closure; the session reference is read when the event fires.
\<close>

definition onaudioprocess :: "bool \<Rightarrow> real list \<Rightarrow> live_session \<Rightarrow> live_session" where
  "onaudioprocess captured_micActive inputData s =
     (if \<not> captured_micActive \<or> sessionPromiseRef s = None then s
      else
        (let pcmBlob = createPcmBlob inputData
         in with_session [RealtimeInput (snd pcmBlob) (fst pcmBlob)] s))"

text \<open>
  The cleanup of the camera effect, lines 480-487. Each call is guarded by its reference
  only; no reference is cleared and the session is not touched.
\<close>

definition cleanup :: "live_session \<Rightarrow> live_session" where
  "cleanup s =
     (let s1 = (if videoRef s \<and> srcObject s \<noteq> None
                then s\<lparr> srcObject := Some Released, teardown := teardown s @ [StopTracks] \<rparr>
                else s);
          s2 = (if audioContextRef s1 \<noteq> None
                then s1\<lparr> audioContextRef := Some Released,
                        teardown := teardown s1 @ [ClosePlaybackContext] \<rparr>
                else s1);
          s3 = (if inputAudioContextRef s2 \<noteq> None
                then s2\<lparr> inputAudioContextRef := Some Released,
                        teardown := teardown s2 @ [CloseCaptureContext] \<rparr>
                else s2)
      in if poseInstanceRef s3 \<noteq> None
         then s3\<lparr> poseInstanceRef := Some Released, teardown := teardown s3 @ [ClosePose] \<rparr>
         else s3)"

text \<open>
  \<^verbatim>\<open>startCamera\<close>, lines 467-478, in the two stretches between which it waits for the
  camera: the request, made by the effect of a render with the \<^verbatim>\<open>connectToLive\<close> of
  that render, and the rest, run when the request is answered.
\<close>

definition startCamera :: "closure \<Rightarrow> live_session \<Rightarrow> live_session" where
  "startCamera c s = s\<lparr> pendingCamera := pendingCamera s @ [c] \<rparr>"

definition startCamera_resume :: "platform \<Rightarrow> live_session \<Rightarrow> live_session" where
  "startCamera_resume env s =
     (case pendingCamera s of
        [] \<Rightarrow> s
      | c # cs \<Rightarrow>
          (let s1 = s\<lparr> pendingCamera := cs \<rparr>
           in if cameraGranted env
              then connectToLive env c (if videoRef s1 then s1\<lparr> srcObject := Some Active \<rparr> else s1)
              else s1\<lparr> permissionDenied := True \<rparr>))"

text \<open>
  Exit: \<^verbatim>\<open>onExit\<close> makes the parent stop rendering the component. React clears the
  element references of an unmounted component before it runs the cleanups of its
  effects, so the cleanup of lines 480-487 finds \<^verbatim>\<open>videoRef.current\<close> null. The
  cleanups of the two other effects (the animation frame and the video interval) touch
  nothing of this state and are left out.
\<close>

definition unmount :: "live_session \<Rightarrow> live_session" where
  "unmount s = cleanup (s\<lparr> videoRef := False \<rparr>)"

text \<open>\<^verbatim>\<open>initPose\<close>, lines 402-420.\<close>

definition initPose :: "platform \<Rightarrow> live_session \<Rightarrow> live_session" where
  "initPose env s = (if poseAvailable env then s\<lparr> poseInstanceRef := Some Active \<rparr> else s)"

section \<open>The component as a transition system\<close>

text \<open>
  The events the component reacts to. After a handler has run, React renders again.
  \<^verbatim>\<open>connectToLive\<close> is memoised on \<^verbatim>\<open>[plan, currentStep, micActive]\<close> and the camera
  effect depends on \<^verbatim>\<open>[connectToLive]\<close> (line 488): when the index or the microphone
  flag has changed, a new \<^verbatim>\<open>connectToLive\<close> is created with the values of that render,
  the effect's cleanup runs and then the effect itself, which starts \<^verbatim>\<open>startCamera\<close>
  with the new callback. The answers to the camera and microphone requests are events of
  their own, each resuming the oldest run that waits. An \<^verbatim>\<open>audioprocess\<close> event
  reaches the installed handler while its audio context runs.
\<close>

datatype event =
    Mount
  | CameraAnswer
  | MicrophoneAnswer
  | Open
  | Close
  | Message real nat LiveServerMessage
  | NextButton
  | MicButton
  | AudioProcess "real list"
  | Unmount

definition commit :: "live_session \<Rightarrow> live_session \<Rightarrow> live_session" where
  "commit old new =
     (if currentStep new \<noteq> currentStep old \<or> micActive new \<noteq> micActive old
      then startCamera (render_closure new) (cleanup new)
      else new)"

fun handle :: "WorkoutPlan \<Rightarrow> platform \<Rightarrow> event \<Rightarrow> live_session \<Rightarrow> live_session" where
  "handle plan env Mount s = startCamera (render_closure s) (initPose env s)"
| "handle plan env CameraAnswer s = startCamera_resume env s"
| "handle plan env MicrophoneAnswer s = connectToLive_resume env s"
| "handle plan env Open s = onopen plan s"
| "handle plan env Close s = onclose s"
| "handle plan env (Message currentTime now msg) s = snd (onmessage plan currentTime now msg s)"
| "handle plan env NextButton s = handleNextStep plan ''manual'' s"
| "handle plan env MicButton s = s\<lparr> micActive := \<not> micActive s \<rparr>"
| "handle plan env (AudioProcess inputData) s =
     (case callbacks s of
        None \<Rightarrow> s
      | Some c \<Rightarrow>
          if inputAudioContextRef s = Some Active
          then onaudioprocess (closure_micActive c) inputData s
          else s)"
| "handle plan env Unmount s = unmount s"

definition step :: "WorkoutPlan \<Rightarrow> platform \<Rightarrow> event \<Rightarrow> live_session \<Rightarrow> live_session" where
  "step plan env e s = commit s (handle plan env e s)"

fun run :: "WorkoutPlan \<Rightarrow> platform \<Rightarrow> event list \<Rightarrow> live_session \<Rightarrow> live_session" where
  "run plan env [] s = s"
| "run plan env (e # es) s = run plan env es (step plan env e s)"

text \<open>The audio chunks among the messages sent: the data of each, oldest first.\<close>

fun audio_sent :: "outbound list \<Rightarrow> string list" where
  "audio_sent [] = []"
| "audio_sent (RealtimeInput mimeType d # ms) =
     (if mimeType = ''audio/pcm;rate=16000'' then d # audio_sent ms else audio_sent ms)"
| "audio_sent (_ # ms) = audio_sent ms"

text \<open>The close calls among the teardown calls, oldest first.\<close>

definition closes :: "teardown_call list \<Rightarrow> teardown_call list" where
  "closes cs = filter (\<lambda>c. c \<noteq> StopTracks) cs"

section \<open>Overlay renderer\<close>

text \<open>
  \<^verbatim>\<open>onPoseResults\<close>, lines 303-399. One call paints one frame; the model returns the
  canvas operations of the call in order. A landmark is a point normalised to the frame.
  What the call is given: the overlay canvas with its size (absent when the reference is
  null), whether it yields a 2D context, the displayed size of the video element (absent
  when that reference is null), whether the two drawing utilities are loaded, and the
  landmarks of the pose result (absent when no pose was found).
\<close>

record landmark =
  lm_x :: real
  lm_y :: real

datatype canvas_op =
    Save
  | Restore
  | ClearRect real real real real
  | DrawConnectors "landmark list" string nat
  | DrawLandmarks "landmark list" string nat nat
  | FillStyle string
  | StrokeStyle string
  | LineWidth nat
  | Font string
  | BeginPath
  | Arc real real real real real
  | Fill
  | Stroke
  | MoveTo real real
  | LineTo real real
  | FillText string real real
  | FillRect real real real real

record pose_tick =
  canvas :: "(nat \<times> nat) option"
  context2d :: bool
  video :: "(nat \<times> nat) option"
  drawConnectors :: bool
  drawLandmarks :: bool
  poseLandmarks :: "landmark list option"




text \<open>
  The callout, lines 356-380: a filled disc of radius 20 at the anchor with an exclamation
  mark, a leader line from the anchor to the label, and the label box with the feedback
  text.
\<close>

definition callout :: "string \<Rightarrow> string \<Rightarrow> real \<Rightarrow> real \<Rightarrow> canvas_op list" where
  "callout color fb tx ty =
     [FillStyle color, BeginPath, Arc tx ty 20 0 (2 * pi), Fill,
      FillStyle ''black'', Font ''bold 12px Inter'', FillText ''!'' (tx - 2) (ty + 4),
      StrokeStyle color, LineWidth 2, BeginPath, MoveTo tx ty, LineTo (tx + 50) (ty - 50), Stroke,
      FillStyle ''rgba(15, 23, 42, 0.9)'', FillRect (tx + 50) (ty - 70) 140 30,
      FillStyle ''white'', FillText fb (tx + 60) (ty - 50)]"

text \<open>The skeleton, lines 331-343, and the four corner brackets, lines 386-396.\<close>

definition skeleton :: "pose_tick \<Rightarrow> string \<Rightarrow> landmark list \<Rightarrow> canvas_op list" where
  "skeleton r color lms =
     (if drawConnectors r then [DrawConnectors lms color 4] else [])
     @ (if drawLandmarks r then [DrawLandmarks lms ''#ffffff'' 2 4] else [])"

definition corners :: "real \<Rightarrow> real \<Rightarrow> canvas_op list" where
  "corners w h =
     [StrokeStyle ''rgba(6, 182, 212, 0.3)'', LineWidth 2,
      BeginPath, MoveTo 20 (20 + 40), LineTo 20 20, LineTo (20 + 40) 20, Stroke,
      BeginPath, MoveTo (w - 20) (20 + 40), LineTo (w - 20) 20, LineTo (w - 20 - 40) 20, Stroke,
      BeginPath, MoveTo 20 (h - 20 - 40), LineTo 20 (h - 20), LineTo (20 + 40) (h - 20), Stroke,
      BeginPath, MoveTo (w - 20) (h - 20 - 40), LineTo (w - 20) (h - 20),
      LineTo (w - 20 - 40) (h - 20), Stroke]"




text \<open>A frame shows a callout when it holds the disc: no other part of a frame draws an arc.\<close>

fun is_arc :: "canvas_op \<Rightarrow> bool" where
  "is_arc (Arc x y r a b) = True"
| "is_arc _ = False"

definition callout_drawn :: "canvas_op list \<Rightarrow> bool" where
  "callout_drawn ops = list_ex is_arc ops"

section \<open>Sample inputs\<close>

text \<open>A plan of three exercises and a platform that grants every request.\<close>

definition plan3 :: WorkoutPlan where
  "plan3 = \<lparr> title = ''Core'', duration = ''10 min'', difficulty = ''easy'',
     exercises =
       [\<lparr> name = ''Squat'', durationOrReps = ''10 reps'', description = ''Sit back'',
          tips = ''Knees out'' \<rparr>,
        \<lparr> name = ''Plank'', durationOrReps = ''30 s'', description = ''Hold still'',
          tips = ''Flat back'' \<rparr>,
        \<lparr> name = ''Lunge'', durationOrReps = ''10 reps'', description = ''Step forward'',
          tips = ''Chest up'' \<rparr>] \<rparr>"

definition granting :: platform where
  "granting = \<lparr> apiKey = True, cameraGranted = True, microphoneGranted = True,
                 poseAvailable = True \<rparr>"

text \<open>A message that carries one \<^verbatim>\<open>nextExercise\<close> call with the given id.\<close>

definition remote_advance :: "string \<Rightarrow> LiveServerMessage" where
  "remote_advance i =
     \<lparr> audioData = None,
       toolCall = Some [\<lparr> fc_name = ''nextExercise'', fc_id = i,
                          fc_args = \<lparr> arg_status = ''correct'', arg_feedback = ''Good'',
                                      arg_focusArea = ''general'' \<rparr> \<rparr>] \<rparr>"

text \<open>
  A message that carries one audio payload; the session once the channel has opened, with
  its value; and what the payloads used below decode to.
\<close>

definition audio_message :: "string \<Rightarrow> LiveServerMessage" where
  "audio_message d = \<lparr> audioData = Some d, toolCall = None \<rparr>"

definition connected_session :: live_session where
  "connected_session = run plan3 granting [Mount, CameraAnswer, MicrophoneAnswer, Open] (initial 0)"

lemmas handler_defs =
  step_def commit_def render_closure_def startCamera_def startCamera_resume_def initPose_def
  cleanup_def unmount_def connectToLive_def connectToLive_resume_def onopen_def onclose_def
  setConnectionStatus_def with_session_def triggerHaptic_def onmessage_def
  audio_payload_def tools_def handleNextStep_def updateFormFeedback_def onaudioprocess_def
  announcement_def Let_def

lemma connected_session_eval:
  "connected_session = \<lparr> currentStep = 0, micActive = True, aiSpeaking = False,
     connectionStatus = Connected, permissionDenied = False,
     overlayStateRef = \<lparr> status = ''scanning'', feedback = ''Aligning body...'',
                          focusArea = ''general'', lastUpdated = 0 \<rparr>,
     audioContextRef = Some Active, inputAudioContextRef = Some Active,
     sessionPromiseRef = Some 0, nextStartTimeRef = 0, poseInstanceRef = Some Active,
     videoRef = True, srcObject = Some Active,
     callbacks = Some \<lparr> closure_currentStep = 0, closure_micActive = True,
                        closure_connectionStatus = Disconnected \<rparr>,
     pendingCamera = [], pendingMicrophone = [],
     channels = 1, sent = [SendText ''Starting Squat. Let's see your form.''],
     scheduled = [], haptics = [], exits = 0, teardown = [],
     statusLog = [Connecting, Connected] \<rparr>"
  by (simp add: connected_session_def plan3_def granting_def initial_def handler_defs)

lemma run_from_connected:
  "run plan3 granting (Mount # CameraAnswer # MicrophoneAnswer # Open # es) (initial 0) =
   run plan3 granting es connected_session"
  by (simp add: connected_session_def)

lemma decode_AIA: "decodeAudioData ''AIA='' = Inr \<lparr> channelData = [- 1], sampleRate = 24000 \<rparr>"
  by (simp add: decodeAudioData_def atob_def strip_padding_def ascii_whitespace_def
      b64_value_def charCodeAt_def PCM_SAMPLE_RATE_def)

lemma decode_AAAA: "decodeAudioData ''AAAA'' = Inl RangeError"
  by (simp add: decodeAudioData_def atob_def strip_padding_def ascii_whitespace_def
      b64_value_def charCodeAt_def PCM_SAMPLE_RATE_def)

lemma atob_AAAA: "atob ''AAAA'' = Inr [CHR 0x00, CHR 0x00, CHR 0x00]"
  by (simp add: atob_def strip_padding_def ascii_whitespace_def b64_value_def char_of_eq_iff)

text \<open>A message that carries one \<^verbatim>\<open>updateFormFeedback\<close> call, and a tick with a full pose.\<close>

definition feedback_message :: "string \<Rightarrow> string \<Rightarrow> string \<Rightarrow> string \<Rightarrow> LiveServerMessage" where
  "feedback_message i st fb fa =
     \<lparr> audioData = None,
       toolCall = Some [\<lparr> fc_name = ''updateFormFeedback'', fc_id = i,
                          fc_args = \<lparr> arg_status = st, arg_feedback = fb,
                                      arg_focusArea = fa \<rparr> \<rparr>] \<rparr>"


section \<open>Properties of the exercise progression\<close>

lemma texts_append: "texts (xs @ ys) = texts xs @ texts ys"
  by (induction xs rule: texts.induct) auto

lemma handleNextStep_index:
  "currentStep (handleNextStep plan i s) =
     (if currentStep s + 1 < length (exercises plan) then currentStep s + 1 else currentStep s)"
  by (simp add: handleNextStep_def Let_def with_session_def triggerHaptic_def split: option.splits)

lemma handleNextStep_exits:
  "exits (handleNextStep plan i s) =
     (if currentStep s + 1 < length (exercises plan) then exits s else exits s + 1)"
  by (simp add: handleNextStep_def Let_def with_session_def triggerHaptic_def split: option.splits)

lemma handleNextStep_sent:
  "sent (handleNextStep plan i s) =
     (if i = ''manual'' \<or> sessionPromiseRef s = None then sent s
      else sent s @ [ToolResponse ''nextExercise'' i ''Moved to next'',
                     SendText (announcement plan (currentStep s + 1))])"
  by (simp add: handleNextStep_def Let_def with_session_def triggerHaptic_def split: option.splits)

lemma handleNextStep_session:
  "sessionPromiseRef (handleNextStep plan i s) = sessionPromiseRef s"
  by (simp add: handleNextStep_def Let_def with_session_def triggerHaptic_def split: option.splits)

lemma currentStep_frame:
  "currentStep (triggerHaptic p s) = currentStep s"
  "currentStep (with_session ms s) = currentStep s"
  "currentStep (setConnectionStatus st s) = currentStep s"
  "currentStep (updateFormFeedback now fc s) = currentStep s"
  "currentStep (connectToLive env c s) = currentStep s"
  "currentStep (connectToLive_resume env s) = currentStep s"
  "currentStep (onopen plan s) = currentStep s"
  "currentStep (onclose s) = currentStep s"
  "currentStep (onaudioprocess m d s) = currentStep s"
  "currentStep (cleanup s) = currentStep s"
  "currentStep (unmount s) = currentStep s"
  "currentStep (startCamera c s) = currentStep s"
  "currentStep (startCamera_resume env s) = currentStep s"
  "currentStep (initPose env s) = currentStep s"
  by (simp_all add: triggerHaptic_def with_session_def setConnectionStatus_def
      updateFormFeedback_def connectToLive_def connectToLive_resume_def onopen_def onclose_def
      onaudioprocess_def cleanup_def unmount_def startCamera_def startCamera_resume_def
      initPose_def Let_def split: option.splits list.splits)

lemma functionCalls_valid:
  "currentStep s < length (exercises plan) \<Longrightarrow>
   currentStep (functionCalls plan now fcs s) < length (exercises plan)"
  by (induction fcs arbitrary: s) (simp_all add: handleNextStep_index currentStep_frame)

lemma onmessage_valid:
  "currentStep s < length (exercises plan) \<Longrightarrow>
   currentStep (snd (onmessage plan t now msg s)) < length (exercises plan)"
  by (auto simp: onmessage_def tools_def Let_def currentStep_frame
      split: option.splits sum.splits intro!: functionCalls_valid)

lemma handle_valid:
  "currentStep s < length (exercises plan) \<Longrightarrow>
   currentStep (handle plan env e s) < length (exercises plan)"
  by (cases e)
     (simp_all add: onmessage_valid handleNextStep_index currentStep_frame split: option.splits)

lemma step_valid:
  "currentStep s < length (exercises plan) \<Longrightarrow>
   currentStep (step plan env e s) < length (exercises plan)"
  by (simp add: step_def commit_def handle_valid currentStep_frame)

lemma run_valid:
  "currentStep s < length (exercises plan) \<Longrightarrow>
   currentStep (run plan env es s) < length (exercises plan)"
  by (induction es arbitrary: s) (simp_all add: step_valid)

text \<open>
  Claim C10. For a plan with at least one exercise the current exercise index is a valid
  index of the exercise sequence in every state the component reaches from its initial
  state, whatever events it handles; every single event keeps a valid index valid; and
  an advance from the last index (manual or remote) calls \<^verbatim>\<open>onExit\<close> once and leaves the
  index where it is, at \<open>length - 1\<close>.
\<close>

theorem currentStep_stays_valid:
  assumes "exercises plan \<noteq> []"
  shows "currentStep (run plan env es (initial now)) < length (exercises plan) \<and>
         (currentStep s < length (exercises plan) \<longrightarrow>
            currentStep (step plan env e s) < length (exercises plan)) \<and>
         (currentStep s + 1 = length (exercises plan) \<longrightarrow>
            currentStep (handleNextStep plan i s) = length (exercises plan) - 1 \<and>
            exits (handleNextStep plan i s) = exits s + 1)"
proof -
  from assms have "currentStep (initial now) < length (exercises plan)"
    by (simp add: initial_def)
  then have "currentStep (run plan env es (initial now)) < length (exercises plan)"
    by (rule run_valid)
  moreover have "currentStep s + 1 = length (exercises plan) \<longrightarrow>
      currentStep (handleNextStep plan i s) = length (exercises plan) - 1 \<and>
      exits (handleNextStep plan i s) = exits s + 1"
    by (auto simp: handleNextStep_index handleNextStep_exits)
  ultimately show ?thesis
    using step_valid by blast
qed

theorem currentStep_stays_valid_witness:
  "exercises plan3 \<noteq> [] \<and>
   currentStep (run plan3 granting [Mount, CameraAnswer, MicrophoneAnswer, Open, NextButton, NextButton, NextButton, NextButton]
                  (initial 0)) = 2 \<and>
   currentStep (run plan3 granting [Mount, CameraAnswer, MicrophoneAnswer, Open, NextButton, NextButton] (initial 0)) + 1
     = length (exercises plan3) \<and>
   currentStep (handleNextStep plan3 ''manual''
       (run plan3 granting [Mount, CameraAnswer, MicrophoneAnswer, Open, NextButton, NextButton] (initial 0))) = 2 \<and>
   exits (handleNextStep plan3 ''manual''
       (run plan3 granting [Mount, CameraAnswer, MicrophoneAnswer, Open, NextButton, NextButton] (initial 0))) = 1"
proof -
  have ne: "exercises plan3 \<noteq> []"
    by (simp add: plan3_def)
  have a: "currentStep (run plan3 granting [Mount, CameraAnswer, MicrophoneAnswer, Open, NextButton, NextButton] (initial 0)) = 2"
    by code_simp
  have b: "currentStep (run plan3 granting
             [Mount, CameraAnswer, MicrophoneAnswer, Open, NextButton, NextButton, NextButton, NextButton] (initial 0)) = 2"
    by code_simp
  have c: "exits (run plan3 granting [Mount, CameraAnswer, MicrophoneAnswer, Open, NextButton, NextButton] (initial 0)) = 0"
    by code_simp
  have len: "length (exercises plan3) = 3"
    by (simp add: plan3_def)
  from currentStep_stays_valid [OF ne, of granting "[]" 0
      "run plan3 granting [Mount, CameraAnswer, MicrophoneAnswer, Open, NextButton, NextButton] (initial 0)" Mount "''manual''"]
  show ?thesis
    using ne a b c len by simp
qed

text \<open>
  Claim C3, as amended. The manual button and the remote \<^verbatim>\<open>nextExercise\<close> call both go
  through \<^verbatim>\<open>handleNextStep\<close>. With a session open and an invocation id other than
  \<^verbatim>\<open>manual\<close>: when the next index is in range the index moves to it, \<^verbatim>\<open>onExit\<close> is not
  called, and a remote advance sends its acknowledgment followed by exactly one text that
  names the new exercise, while a manual advance sends nothing; when the next index is out
  of range the index stays, \<^verbatim>\<open>onExit\<close> is called once, and a remote advance sends its
  acknowledgment followed by the text \<^verbatim>\<open>Workout complete!\<close>, while a manual advance
  sends nothing. For a plan of three exercises, three remote advances from index 0 send
  three texts: two that name the second and the third exercise, then
  \<^verbatim>\<open>Workout complete!\<close>; the index ends at 2 and \<^verbatim>\<open>onExit\<close> is called once.
\<close>

theorem advance_transition:
  assumes "sessionPromiseRef s = Some c" and "i \<noteq> ''manual''"
  shows
    "handle plan env NextButton s = handleNextStep plan ''manual'' s \<and>
     (fc_name fc = ''nextExercise'' \<longrightarrow>
        functionCalls plan now [fc] s = handleNextStep plan (fc_id fc) (triggerHaptic [200] s)) \<and>
     (currentStep s + 1 < length (exercises plan) \<longrightarrow>
        currentStep (handleNextStep plan i s) = currentStep s + 1 \<and>
        exits (handleNextStep plan i s) = exits s \<and>
        sent (handleNextStep plan i s) =
          sent s @ [ToolResponse ''nextExercise'' i ''Moved to next'',
                    SendText (''Next up: '' @ name (exercises plan ! (currentStep s + 1)) @ ''.'')] \<and>
        currentStep (handleNextStep plan ''manual'' s) = currentStep s + 1 \<and>
        exits (handleNextStep plan ''manual'' s) = exits s \<and>
        sent (handleNextStep plan ''manual'' s) = sent s) \<and>
     (length (exercises plan) \<le> currentStep s + 1 \<longrightarrow>
        currentStep (handleNextStep plan i s) = currentStep s \<and>
        exits (handleNextStep plan i s) = exits s + 1 \<and>
        sent (handleNextStep plan i s) =
          sent s @ [ToolResponse ''nextExercise'' i ''Moved to next'',
                    SendText ''Workout complete!''] \<and>
        currentStep (handleNextStep plan ''manual'' s) = currentStep s \<and>
        exits (handleNextStep plan ''manual'' s) = exits s + 1 \<and>
        sent (handleNextStep plan ''manual'' s) = sent s) \<and>
     (length (exercises plan) = 3 \<and> currentStep s = 0 \<and> j \<noteq> ''manual'' \<and> k \<noteq> ''manual'' \<longrightarrow>
        currentStep (advances plan [i, j, k] s) = 2 \<and>
        exits (advances plan [i, j, k] s) = exits s + 1 \<and>
        texts (sent (advances plan [i, j, k] s)) =
          texts (sent s) @ [''Next up: '' @ name (exercises plan ! 1) @ ''.'',
                            ''Next up: '' @ name (exercises plan ! 2) @ ''.'',
                            ''Workout complete!''])"
proof -
  have one: "handle plan env NextButton s = handleNextStep plan ''manual'' s"
    by simp
  have two: "fc_name fc = ''nextExercise'' \<longrightarrow>
      functionCalls plan now [fc] s = handleNextStep plan (fc_id fc) (triggerHaptic [200] s)"
    by simp
  have three: "currentStep s + 1 < length (exercises plan) \<longrightarrow>
        currentStep (handleNextStep plan i s) = currentStep s + 1 \<and>
        exits (handleNextStep plan i s) = exits s \<and>
        sent (handleNextStep plan i s) =
          sent s @ [ToolResponse ''nextExercise'' i ''Moved to next'',
                    SendText (''Next up: '' @ name (exercises plan ! (currentStep s + 1)) @ ''.'')] \<and>
        currentStep (handleNextStep plan ''manual'' s) = currentStep s + 1 \<and>
        exits (handleNextStep plan ''manual'' s) = exits s \<and>
        sent (handleNextStep plan ''manual'' s) = sent s"
    using assms
    by (simp add: handleNextStep_index handleNextStep_exits handleNextStep_sent announcement_def)
  have four: "length (exercises plan) \<le> currentStep s + 1 \<longrightarrow>
        currentStep (handleNextStep plan i s) = currentStep s \<and>
        exits (handleNextStep plan i s) = exits s + 1 \<and>
        sent (handleNextStep plan i s) =
          sent s @ [ToolResponse ''nextExercise'' i ''Moved to next'',
                    SendText ''Workout complete!''] \<and>
        currentStep (handleNextStep plan ''manual'' s) = currentStep s \<and>
        exits (handleNextStep plan ''manual'' s) = exits s + 1 \<and>
        sent (handleNextStep plan ''manual'' s) = sent s"
    using assms
    by (simp add: handleNextStep_index handleNextStep_exits handleNextStep_sent announcement_def)
  have five: "length (exercises plan) = 3 \<and> currentStep s = 0 \<and> j \<noteq> ''manual'' \<and> k \<noteq> ''manual'' \<longrightarrow>
        currentStep (advances plan [i, j, k] s) = 2 \<and>
        exits (advances plan [i, j, k] s) = exits s + 1 \<and>
        texts (sent (advances plan [i, j, k] s)) =
          texts (sent s) @ [''Next up: '' @ name (exercises plan ! 1) @ ''.'',
                            ''Next up: '' @ name (exercises plan ! 2) @ ''.'',
                            ''Workout complete!'']"
    using assms
    by (simp add: handleNextStep_index handleNextStep_exits handleNextStep_sent
        handleNextStep_session announcement_def texts_append numeral_2_eq_2)
  from one two three four five show ?thesis
    by blast
qed

theorem advance_transition_witness:
  "sessionPromiseRef (run plan3 granting [Mount, CameraAnswer, MicrophoneAnswer, Open] (initial 0)) = Some 0 \<and>
   ''call-1'' \<noteq> ''manual'' \<and>
   currentStep (run plan3 granting [Mount, CameraAnswer, MicrophoneAnswer, Open] (initial 0)) + 1 < length (exercises plan3) \<and>
   currentStep (handleNextStep plan3 ''call-1'' (run plan3 granting [Mount, CameraAnswer, MicrophoneAnswer, Open] (initial 0))) = 1 \<and>
   sent (handleNextStep plan3 ''call-1'' (run plan3 granting [Mount, CameraAnswer, MicrophoneAnswer, Open] (initial 0))) =
     sent (run plan3 granting [Mount, CameraAnswer, MicrophoneAnswer, Open] (initial 0)) @
       [ToolResponse ''nextExercise'' ''call-1'' ''Moved to next'', SendText ''Next up: Plank.''] \<and>
   sent (handleNextStep plan3 ''manual'' (run plan3 granting [Mount, CameraAnswer, MicrophoneAnswer, Open] (initial 0))) =
     sent (run plan3 granting [Mount, CameraAnswer, MicrophoneAnswer, Open] (initial 0)) \<and>
   length (exercises plan3) = 3 \<and>
   texts (sent (advances plan3 [''call-1'', ''call-2'', ''call-3'']
                  (run plan3 granting [Mount, CameraAnswer, MicrophoneAnswer, Open] (initial 0)))) =
     texts (sent (run plan3 granting [Mount, CameraAnswer, MicrophoneAnswer, Open] (initial 0))) @
       [''Next up: Plank.'', ''Next up: Lunge.'', ''Workout complete!''] \<and>
   exits (advances plan3 [''call-1'', ''call-2'', ''call-3'']
            (run plan3 granting [Mount, CameraAnswer, MicrophoneAnswer, Open] (initial 0))) = 1"
proof -
  have a: "sessionPromiseRef (run plan3 granting [Mount, CameraAnswer, MicrophoneAnswer, Open] (initial 0)) = Some 0"
    by code_simp
  have b: "''call-1'' \<noteq> ''manual''" "''call-2'' \<noteq> ''manual''" "''call-3'' \<noteq> ''manual''"
    by simp_all
  have c: "currentStep (run plan3 granting [Mount, CameraAnswer, MicrophoneAnswer, Open] (initial 0)) = 0"
    by code_simp
  have d: "exits (run plan3 granting [Mount, CameraAnswer, MicrophoneAnswer, Open] (initial 0)) = 0"
    by code_simp
  have e: "length (exercises plan3) = 3" "name (exercises plan3 ! 1) = ''Plank''"
    "name (exercises plan3 ! 2) = ''Lunge''"
    by (simp_all add: plan3_def)
  from advance_transition [OF a b(1), where plan = plan3 and j = "''call-2''" and k = "''call-3''"]
  show ?thesis
    using a b c d e by simp
qed

text \<open>
  The claim as first stated fails on the manual path and on the terminal step: after a
  manual advance from index 0 of the three-exercise plan the index is 1 and no text has
  been sent, and three remote advances send three texts, the last one at the terminal
  step.
\<close>

theorem advance_announcement_counterexample:
  "currentStep (run plan3 granting [Mount, CameraAnswer, MicrophoneAnswer, Open] (initial 0)) + 1 < length (exercises plan3) \<and>
   currentStep (run plan3 granting [Mount, CameraAnswer, MicrophoneAnswer, Open, NextButton] (initial 0)) = 1 \<and>
   texts (sent (run plan3 granting [Mount, CameraAnswer, MicrophoneAnswer, Open, NextButton] (initial 0))) =
     texts (sent (run plan3 granting [Mount, CameraAnswer, MicrophoneAnswer, Open] (initial 0))) \<and>
   texts (sent (run plan3 granting
            [Mount, CameraAnswer, MicrophoneAnswer, Open, Message 0 0 (remote_advance ''call-1''),
             Message 0 0 (remote_advance ''call-2''),
             Message 0 0 (remote_advance ''call-3'')] (initial 0))) =
     texts (sent (run plan3 granting [Mount, CameraAnswer, MicrophoneAnswer, Open] (initial 0))) @
       [''Next up: Plank.'', ''Next up: Lunge.'', ''Workout complete!'']"
  by code_simp

section \<open>Properties of the playback schedule\<close>

text \<open>
  Scheduled segments, each a start time with a duration, are back to back when every
  segment starts no earlier than the one before it started and no earlier than it ends.
  They end by a cursor when each has a non-negative duration and ends at or before it.
\<close>

fun back_to_back :: "(real \<times> real) list \<Rightarrow> bool" where
  "back_to_back [] = True"
| "back_to_back [x] = True"
| "back_to_back ((t1, d1) # (t2, d2) # rest) =
     (t1 \<le> t2 \<and> t1 + d1 \<le> t2 \<and> back_to_back ((t2, d2) # rest))"

definition ends_by :: "real \<Rightarrow> (real \<times> real) list \<Rightarrow> bool" where
  "ends_by cursor xs = list_all (\<lambda>(t, d). 0 \<le> d \<and> t + d \<le> cursor) xs"

definition playback_inv :: "live_session \<Rightarrow> bool" where
  "playback_inv s = (back_to_back (scheduled s) \<and> ends_by (nextStartTimeRef s) (scheduled s))"

lemma back_to_back_snoc:
  "back_to_back xs \<Longrightarrow> ends_by c xs \<Longrightarrow> c \<le> t \<Longrightarrow> back_to_back (xs @ [(t, d)])"
proof (induction xs rule: back_to_back.induct)
  case 1
  then show ?case by simp
next
  case (2 x)
  then show ?case by (cases x) (simp add: ends_by_def)
next
  case (3 t1 d1 t2 d2 rest)
  then show ?case by (simp add: ends_by_def)
qed

lemma ends_by_snoc:
  "ends_by c xs \<Longrightarrow> c \<le> t \<Longrightarrow> 0 \<le> d \<Longrightarrow> ends_by (t + d) (xs @ [(t, d)])"
  by (induction xs) (auto simp: ends_by_def)

lemma back_to_back_nth:
  "back_to_back xs \<Longrightarrow> i + 1 < length xs \<Longrightarrow>
   fst (xs ! i) \<le> fst (xs ! (i + 1)) \<and> fst (xs ! i) + snd (xs ! i) \<le> fst (xs ! (i + 1))"
proof (induction xs arbitrary: i rule: back_to_back.induct)
  case 1
  then show ?case by simp
next
  case (2 x)
  then show ?case by simp
next
  case (3 t1 d1 t2 d2 rest)
  show ?case
  proof (cases i)
    case 0
    with 3 show ?thesis by simp
  next
    case (Suc k)
    with 3 show ?thesis by simp
  qed
qed

lemma buffer_duration_nonneg: "0 \<le> buffer_duration b"
  by (simp add: buffer_duration_def)

lemma playback_frame:
  "scheduled (triggerHaptic p s) = scheduled s \<and>
   nextStartTimeRef (triggerHaptic p s) = nextStartTimeRef s"
  "scheduled (with_session ms s) = scheduled s \<and>
   nextStartTimeRef (with_session ms s) = nextStartTimeRef s"
  "scheduled (setConnectionStatus st s) = scheduled s \<and>
   nextStartTimeRef (setConnectionStatus st s) = nextStartTimeRef s"
  "scheduled (updateFormFeedback now fc s) = scheduled s \<and>
   nextStartTimeRef (updateFormFeedback now fc s) = nextStartTimeRef s"
  "scheduled (handleNextStep plan i s) = scheduled s \<and>
   nextStartTimeRef (handleNextStep plan i s) = nextStartTimeRef s"
  "scheduled (connectToLive env c s) = scheduled s \<and>
   nextStartTimeRef (connectToLive env c s) = nextStartTimeRef s"
  "scheduled (connectToLive_resume env s) = scheduled s \<and>
   nextStartTimeRef (connectToLive_resume env s) = nextStartTimeRef s"
  "scheduled (onopen plan s) = scheduled s \<and>
   nextStartTimeRef (onopen plan s) = nextStartTimeRef s"
  "scheduled (onclose s) = scheduled s \<and>
   nextStartTimeRef (onclose s) = nextStartTimeRef s"
  "scheduled (onaudioprocess m d s) = scheduled s \<and>
   nextStartTimeRef (onaudioprocess m d s) = nextStartTimeRef s"
  "scheduled (cleanup s) = scheduled s \<and>
   nextStartTimeRef (cleanup s) = nextStartTimeRef s"
  "scheduled (unmount s) = scheduled s \<and>
   nextStartTimeRef (unmount s) = nextStartTimeRef s"
  "scheduled (startCamera c s) = scheduled s \<and>
   nextStartTimeRef (startCamera c s) = nextStartTimeRef s"
  "scheduled (startCamera_resume env s) = scheduled s \<and>
   nextStartTimeRef (startCamera_resume env s) = nextStartTimeRef s"
  "scheduled (initPose env s) = scheduled s \<and>
   nextStartTimeRef (initPose env s) = nextStartTimeRef s"
  by (simp_all add: triggerHaptic_def with_session_def setConnectionStatus_def
      updateFormFeedback_def handleNextStep_def connectToLive_def connectToLive_resume_def
      onopen_def onclose_def onaudioprocess_def cleanup_def unmount_def startCamera_def
      startCamera_resume_def initPose_def Let_def split: option.splits list.splits)

lemma functionCalls_playback:
  "scheduled (functionCalls plan now fcs s) = scheduled s \<and>
   nextStartTimeRef (functionCalls plan now fcs s) = nextStartTimeRef s"
  by (induction fcs arbitrary: s) (simp_all add: playback_frame)

lemma tools_playback:
  "scheduled (tools plan now msg s) = scheduled s \<and>
   nextStartTimeRef (tools plan now msg s) = nextStartTimeRef s"
  by (simp add: tools_def functionCalls_playback split: option.splits)

lemma onmessage_decoded:
  "audio_payload msg s = Some d \<Longrightarrow> decodeAudioData d = Inr b \<Longrightarrow>
   scheduled (snd (onmessage plan currentTime now msg s)) =
     scheduled s @ [(max currentTime (nextStartTimeRef s), buffer_duration b)] \<and>
   nextStartTimeRef (snd (onmessage plan currentTime now msg s)) =
     max currentTime (nextStartTimeRef s) + buffer_duration b"
  by (simp add: onmessage_def Let_def tools_playback playback_frame triggerHaptic_def)

lemma onmessage_failed:
  "audio_payload msg s = Some d \<Longrightarrow> decodeAudioData d = Inl e \<Longrightarrow>
   onmessage plan currentTime now msg s = (Some e, triggerHaptic [50] (s\<lparr> aiSpeaking := True \<rparr>))"
  by (simp add: onmessage_def Let_def)

lemma onmessage_no_audio:
  "audio_payload msg s = None \<Longrightarrow>
   onmessage plan currentTime now msg s = (None, tools plan now msg s)"
  by (simp add: onmessage_def)

lemma onmessage_cases:
  obtains (no_audio) "audio_payload msg s = None"
  | (failed) d e where "audio_payload msg s = Some d" "decodeAudioData d = Inl e"
  | (decoded) d b where "audio_payload msg s = Some d" "decodeAudioData d = Inr b"
  by (cases "audio_payload msg s"; cases "decodeAudioData (the (audio_payload msg s))") auto

lemma onmessage_inv:
  assumes "playback_inv s"
  shows "playback_inv (snd (onmessage plan currentTime now msg s))"
proof (cases rule: onmessage_cases [of msg s])
  case no_audio
  with assms show ?thesis
    by (simp add: onmessage_no_audio playback_inv_def tools_playback)
next
  case (failed d e)
  with assms show ?thesis
    by (simp add: onmessage_failed playback_inv_def triggerHaptic_def)
next
  case (decoded d b)
  from assms have "back_to_back (scheduled s)" "ends_by (nextStartTimeRef s) (scheduled s)"
    by (simp_all add: playback_inv_def)
  then have "back_to_back (scheduled s @ [(max currentTime (nextStartTimeRef s), buffer_duration b)])"
    "ends_by (max currentTime (nextStartTimeRef s) + buffer_duration b)
       (scheduled s @ [(max currentTime (nextStartTimeRef s), buffer_duration b)])"
    by (simp_all add: back_to_back_snoc ends_by_snoc buffer_duration_nonneg)
  with decoded show ?thesis
    by (simp add: playback_inv_def onmessage_decoded)
qed

lemma onmessage_cursor:
  "nextStartTimeRef s \<le> nextStartTimeRef (snd (onmessage plan currentTime now msg s))"
proof (cases rule: onmessage_cases [of msg s])
  case no_audio
  then show ?thesis by (simp add: onmessage_no_audio tools_playback)
next
  case (failed d e)
  then show ?thesis by (simp add: onmessage_failed triggerHaptic_def)
next
  case (decoded d b)
  have "0 \<le> buffer_duration b" by (rule buffer_duration_nonneg)
  with decoded show ?thesis by (simp add: onmessage_decoded)
qed

lemma handle_inv: "playback_inv s \<Longrightarrow> playback_inv (handle plan env e s)"
proof (cases e)
  case (Message currentTime now msg)
  then show "playback_inv s \<Longrightarrow> ?thesis"
    by (simp add: onmessage_inv)
qed (simp_all add: playback_inv_def playback_frame split: option.splits)

lemma handle_cursor: "nextStartTimeRef s \<le> nextStartTimeRef (handle plan env e s)"
  by (cases e) (simp_all add: onmessage_cursor playback_frame split: option.splits)

lemma step_inv: "playback_inv s \<Longrightarrow> playback_inv (step plan env e s)"
  using handle_inv [of s plan env e]
  by (simp add: step_def commit_def playback_inv_def playback_frame)

lemma step_cursor: "nextStartTimeRef s \<le> nextStartTimeRef (step plan env e s)"
  using handle_cursor [of s plan env e]
  by (simp add: step_def commit_def playback_frame)

lemma run_inv: "playback_inv s \<Longrightarrow> playback_inv (run plan env es s)"
  by (induction es arbitrary: s) (simp_all add: step_inv)

lemma initial_inv: "playback_inv (initial now)"
  by (simp add: playback_inv_def initial_def ends_by_def)

lemma Int16Array_of_odd: "odd (length bs) \<Longrightarrow> Int16Array_of bs = Inl RangeError"
  by (induction bs rule: Int16Array_of.induct) (auto split: sum.splits)

lemma decodeAudioData_odd:
  "atob d = Inr bs \<Longrightarrow> odd (length bs) \<Longrightarrow> decodeAudioData d = Inl RangeError"
  by (simp add: decodeAudioData_def Int16Array_of_odd)

lemma decodeAudioData_duration:
  "decodeAudioData d = Inr b \<Longrightarrow> 0 < buffer_duration b"
  by (auto simp: decodeAudioData_def buffer_duration_def PCM_SAMPLE_RATE_def Let_def
      split: sum.splits if_splits)

text \<open>
  Claim C2. Inbound audio segments are handled in arrival order. A segment that decodes
  is started at the maximum of the current playback time and the cursor
  \<^verbatim>\<open>nextStartTime\<close>, and the cursor is then set to that start plus the duration of the
  segment: it has advanced past the start by exactly the duration, and past its old value
  by exactly the duration when the segment queues behind pending audio. Consequently, in
  every state reached from the initial one, whatever the events and whatever playback
  times they carry, consecutive scheduled segments have non-decreasing starts and each
  starts at or after the end of the one before: no two overlap. The cursor never
  decreases, and every step keeps the invariant that all scheduled segments end at or
  before the cursor. A decoded buffer has a positive duration.
\<close>

theorem playback_no_overlap:
  "(i + 1 < length (scheduled (run plan env es (initial now))) \<longrightarrow>
      fst (scheduled (run plan env es (initial now)) ! i)
        \<le> fst (scheduled (run plan env es (initial now)) ! (i + 1)) \<and>
      fst (scheduled (run plan env es (initial now)) ! i)
        + snd (scheduled (run plan env es (initial now)) ! i)
        \<le> fst (scheduled (run plan env es (initial now)) ! (i + 1))) \<and>
   nextStartTimeRef s \<le> nextStartTimeRef (step plan env e s) \<and>
   (playback_inv s \<longrightarrow> playback_inv (step plan env e s)) \<and>
   (audio_payload msg s = Some d \<and> decodeAudioData d = Inr b \<longrightarrow>
      scheduled (snd (onmessage plan currentTime t msg s)) =
        scheduled s @ [(max currentTime (nextStartTimeRef s), buffer_duration b)] \<and>
      nextStartTimeRef (snd (onmessage plan currentTime t msg s)) =
        max currentTime (nextStartTimeRef s) + buffer_duration b \<and>
      (currentTime \<le> nextStartTimeRef s \<longrightarrow>
         nextStartTimeRef (snd (onmessage plan currentTime t msg s)) =
           nextStartTimeRef s + buffer_duration b) \<and>
      0 < buffer_duration b)"
proof -
  have "playback_inv (run plan env es (initial now))"
    by (rule run_inv) (rule initial_inv)
  then have "back_to_back (scheduled (run plan env es (initial now)))"
    by (simp add: playback_inv_def)
  then have first: "i + 1 < length (scheduled (run plan env es (initial now))) \<longrightarrow>
      fst (scheduled (run plan env es (initial now)) ! i)
        \<le> fst (scheduled (run plan env es (initial now)) ! (i + 1)) \<and>
      fst (scheduled (run plan env es (initial now)) ! i)
        + snd (scheduled (run plan env es (initial now)) ! i)
        \<le> fst (scheduled (run plan env es (initial now)) ! (i + 1))"
    using back_to_back_nth by blast
  have last: "audio_payload msg s = Some d \<and> decodeAudioData d = Inr b \<longrightarrow>
      scheduled (snd (onmessage plan currentTime t msg s)) =
        scheduled s @ [(max currentTime (nextStartTimeRef s), buffer_duration b)] \<and>
      nextStartTimeRef (snd (onmessage plan currentTime t msg s)) =
        max currentTime (nextStartTimeRef s) + buffer_duration b \<and>
      (currentTime \<le> nextStartTimeRef s \<longrightarrow>
         nextStartTimeRef (snd (onmessage plan currentTime t msg s)) =
           nextStartTimeRef s + buffer_duration b) \<and>
      0 < buffer_duration b"
    using onmessage_decoded [of msg s d b plan currentTime t] decodeAudioData_duration [of d b]
    by (simp add: max_def)
  from first last step_cursor step_inv show ?thesis
    by blast
qed

theorem playback_no_overlap_witness:
  "scheduled (run plan3 granting
       [Mount, CameraAnswer, MicrophoneAnswer, Open, Message 5 0 (audio_message ''AIA=''), Message 5 1 (audio_message ''AIA=''),
        Message 9 2 (audio_message ''AIA='')] (initial 0)) =
     [(5, 1 / 24000), (5 + 1 / 24000, 1 / 24000), (9, 1 / 24000)] \<and>
   0 + 1 < length (scheduled (run plan3 granting
       [Mount, CameraAnswer, MicrophoneAnswer, Open, Message 5 0 (audio_message ''AIA=''), Message 5 1 (audio_message ''AIA=''),
        Message 9 2 (audio_message ''AIA='')] (initial 0))) \<and>
   fst (scheduled (run plan3 granting
       [Mount, CameraAnswer, MicrophoneAnswer, Open, Message 5 0 (audio_message ''AIA=''), Message 5 1 (audio_message ''AIA=''),
        Message 9 2 (audio_message ''AIA='')] (initial 0)) ! 0)
     + snd (scheduled (run plan3 granting
       [Mount, CameraAnswer, MicrophoneAnswer, Open, Message 5 0 (audio_message ''AIA=''), Message 5 1 (audio_message ''AIA=''),
        Message 9 2 (audio_message ''AIA='')] (initial 0)) ! 0)
     \<le> fst (scheduled (run plan3 granting
       [Mount, CameraAnswer, MicrophoneAnswer, Open, Message 5 0 (audio_message ''AIA=''), Message 5 1 (audio_message ''AIA=''),
        Message 9 2 (audio_message ''AIA='')] (initial 0)) ! (0 + 1)) \<and>
   playback_inv connected_session \<and>
   playback_inv (step plan3 granting (Message 5 0 (audio_message ''AIA='')) connected_session) \<and>
   audio_payload (audio_message ''AIA='') connected_session = Some ''AIA='' \<and>
   decodeAudioData ''AIA='' = Inr \<lparr> channelData = [- 1], sampleRate = 24000 \<rparr> \<and>
   nextStartTimeRef (snd (onmessage plan3 5 0 (audio_message ''AIA='') connected_session))
     = max 5 (nextStartTimeRef connected_session)
       + buffer_duration \<lparr> channelData = [- 1], sampleRate = 24000 \<rparr> \<and>
   audio_payload (audio_message ''AIA='')
       (step plan3 granting (Message 5 0 (audio_message ''AIA='')) connected_session)
     = Some ''AIA='' \<and>
   5 \<le> nextStartTimeRef
         (step plan3 granting (Message 5 0 (audio_message ''AIA='')) connected_session) \<and>
   nextStartTimeRef (snd (onmessage plan3 5 1 (audio_message ''AIA='')
       (step plan3 granting (Message 5 0 (audio_message ''AIA='')) connected_session)))
     = nextStartTimeRef
         (step plan3 granting (Message 5 0 (audio_message ''AIA='')) connected_session)
       + buffer_duration \<lparr> channelData = [- 1], sampleRate = 24000 \<rparr>"
proof -
  have sch: "scheduled (run plan3 granting
       [Mount, CameraAnswer, MicrophoneAnswer, Open, Message 5 0 (audio_message ''AIA=''), Message 5 1 (audio_message ''AIA=''),
        Message 9 2 (audio_message ''AIA='')] (initial 0)) =
     [(5, 1 / 24000), (5 + 1 / 24000, 1 / 24000), (9, 1 / 24000)]"
    unfolding run_from_connected
    by (simp add: connected_session_eval audio_message_def handler_defs decode_AIA
        buffer_duration_def)
  then have len: "0 + 1 < length (scheduled (run plan3 granting
       [Mount, CameraAnswer, MicrophoneAnswer, Open, Message 5 0 (audio_message ''AIA=''), Message 5 1 (audio_message ''AIA=''),
        Message 9 2 (audio_message ''AIA='')] (initial 0)))"
    by simp
  have inv: "playback_inv connected_session"
    unfolding connected_session_def by (rule run_inv) (rule initial_inv)
  have pay: "audio_payload (audio_message ''AIA='') connected_session = Some ''AIA=''"
    by (simp add: connected_session_eval audio_message_def audio_payload_def)
  have pay2: "audio_payload (audio_message ''AIA='')
       (step plan3 granting (Message 5 0 (audio_message ''AIA='')) connected_session)
     = Some ''AIA=''"
    by (simp add: connected_session_eval audio_message_def handler_defs decode_AIA)
  have cur2: "5 \<le> nextStartTimeRef
         (step plan3 granting (Message 5 0 (audio_message ''AIA='')) connected_session)"
    by (simp add: connected_session_eval audio_message_def handler_defs decode_AIA
        buffer_duration_def)
  from playback_no_overlap [where plan = plan3 and env = granting and now = 0 and i = 0
      and es = "[Mount, CameraAnswer, MicrophoneAnswer, Open, Message 5 0 (audio_message ''AIA=''),
                 Message 5 1 (audio_message ''AIA=''), Message 9 2 (audio_message ''AIA='')]"
      and s = connected_session and e = "Message 5 0 (audio_message ''AIA='')"
      and msg = "audio_message ''AIA=''" and d = "''AIA=''"
      and b = "\<lparr> channelData = [- 1], sampleRate = 24000 \<rparr>" and currentTime = 5 and t = 0]
    playback_no_overlap [where plan = plan3
      and s = "step plan3 granting (Message 5 0 (audio_message ''AIA='')) connected_session"
      and msg = "audio_message ''AIA=''" and d = "''AIA=''"
      and b = "\<lparr> channelData = [- 1], sampleRate = 24000 \<rparr>" and currentTime = 5 and t = 1]
    sch len inv pay pay2 cur2 decode_AIA
  show ?thesis
    by blast
qed

text \<open>
  Claim C7. When the payload of an inbound message fails to decode, the handler ends with
  the exception as its result and the session goes on from the state the handler leaves:
  the segment is skipped (nothing is scheduled), the cursor \<^verbatim>\<open>nextStartTime\<close> is
  unchanged and still satisfies the playback invariant, and the connection status, the
  session reference and the playback context are untouched; only \<^verbatim>\<open>aiSpeaking\<close> has
  been set and a vibration requested. A payload whose decoded byte sequence has odd
  length, that is not a whole number of 16-bit samples, fails with \<^verbatim>\<open>RangeError\<close>.
\<close>

theorem corrupt_audio_skipped:
  assumes "audio_payload msg s = Some d" and "decodeAudioData d = Inl e"
  shows "onmessage plan currentTime now msg s
           = (Some e, triggerHaptic [50] (s\<lparr> aiSpeaking := True \<rparr>)) \<and>
         step plan env (Message currentTime now msg) s
           = triggerHaptic [50] (s\<lparr> aiSpeaking := True \<rparr>) \<and>
         nextStartTimeRef (step plan env (Message currentTime now msg) s) = nextStartTimeRef s \<and>
         scheduled (step plan env (Message currentTime now msg) s) = scheduled s \<and>
         connectionStatus (step plan env (Message currentTime now msg) s) = connectionStatus s \<and>
         sessionPromiseRef (step plan env (Message currentTime now msg) s) = sessionPromiseRef s \<and>
         audioContextRef (step plan env (Message currentTime now msg) s) = audioContextRef s \<and>
         (playback_inv s \<longrightarrow> playback_inv (step plan env (Message currentTime now msg) s)) \<and>
         (atob d' = Inr bs \<and> odd (length bs) \<longrightarrow> decodeAudioData d' = Inl RangeError)"
proof -
  from assms have om: "onmessage plan currentTime now msg s
      = (Some e, triggerHaptic [50] (s\<lparr> aiSpeaking := True \<rparr>))"
    by (rule onmessage_failed)
  then have st: "step plan env (Message currentTime now msg) s
      = triggerHaptic [50] (s\<lparr> aiSpeaking := True \<rparr>)"
    by (simp add: step_def commit_def triggerHaptic_def)
  have odd: "atob d' = Inr bs \<and> odd (length bs) \<longrightarrow> decodeAudioData d' = Inl RangeError"
    using decodeAudioData_odd by blast
  from om st odd show ?thesis
    by (simp add: triggerHaptic_def playback_inv_def)
qed

theorem corrupt_audio_skipped_witness:
  "audio_payload (audio_message ''AAAA'') connected_session = Some ''AAAA'' \<and>
   atob ''AAAA'' = Inr [CHR 0x00, CHR 0x00, CHR 0x00] \<and>
   odd (length [CHR 0x00, CHR 0x00, CHR 0x00]) \<and>
   decodeAudioData ''AAAA'' = Inl RangeError \<and>
   onmessage plan3 5 0 (audio_message ''AAAA'') connected_session
     = (Some RangeError, triggerHaptic [50] (connected_session\<lparr> aiSpeaking := True \<rparr>)) \<and>
   nextStartTimeRef (step plan3 granting (Message 5 0 (audio_message ''AAAA'')) connected_session)
     = nextStartTimeRef connected_session \<and>
   scheduled (step plan3 granting (Message 5 0 (audio_message ''AAAA'')) connected_session)
     = scheduled connected_session \<and>
   connectionStatus (step plan3 granting (Message 5 0 (audio_message ''AAAA'')) connected_session)
     = connectionStatus connected_session \<and>
   connectionStatus connected_session = Connected \<and>
   playback_inv connected_session \<and>
   playback_inv (step plan3 granting (Message 5 0 (audio_message ''AAAA'')) connected_session)"
proof -
  have pay: "audio_payload (audio_message ''AAAA'') connected_session = Some ''AAAA''"
    by (simp add: connected_session_eval audio_message_def audio_payload_def)
  have con: "connectionStatus connected_session = Connected"
    by (simp add: connected_session_eval)
  have inv: "playback_inv connected_session"
    unfolding connected_session_def by (rule run_inv) (rule initial_inv)
  have odd3: "odd (length [CHR 0x00, CHR 0x00, CHR 0x00])"
    by simp
  from corrupt_audio_skipped [OF pay decode_AAAA, where plan = plan3 and env = granting
      and currentTime = 5 and now = 0 and d' = "''AAAA''" and bs = "[CHR 0x00, CHR 0x00, CHR 0x00]"]
    pay atob_AAAA decode_AAAA con inv odd3
  show ?thesis
    by blast
qed

section \<open>Properties of the feedback overlay state\<close>

text \<open>
  Claim C4, as amended. An inbound \<^verbatim>\<open>updateFormFeedback\<close> invocation is applied as it
  arrives, without validation: whatever strings it carries as status, feedback and focus
  area replace the overlay state in one assignment, stamped with the current time, and
  the invocation is acknowledged once with its id. The exercise index is not touched.
\<close>

theorem feedback_applied:
  assumes "fc_name fc = ''updateFormFeedback''" and "sessionPromiseRef s = Some c"
  shows "overlayStateRef (functionCalls plan now [fc] s) =
           \<lparr> status = arg_status (fc_args fc), feedback = arg_feedback (fc_args fc),
             focusArea = arg_focusArea (fc_args fc), lastUpdated = now \<rparr> \<and>
         sent (functionCalls plan now [fc] s) =
           sent s @ [ToolResponse ''updateFormFeedback'' (fc_id fc) ''Overlay updated''] \<and>
         currentStep (functionCalls plan now [fc] s) = currentStep s \<and>
         (audio_payload msg s = None \<and> toolCall msg = Some [fc] \<longrightarrow>
            onmessage plan currentTime now msg s = (None, functionCalls plan now [fc] s))"
  using assms
  by (simp add: updateFormFeedback_def with_session_def triggerHaptic_def onmessage_def
      tools_def Let_def)

theorem feedback_applied_witness:
  "fc_name \<lparr> fc_name = ''updateFormFeedback'', fc_id = ''f1'',
             fc_args = \<lparr> arg_status = ''incorrect'', arg_feedback = ''Lower Hips'',
                         arg_focusArea = ''hips'' \<rparr> \<rparr> = ''updateFormFeedback'' \<and>
   sessionPromiseRef connected_session = Some 0 \<and>
   overlayStateRef (functionCalls plan3 7
       [\<lparr> fc_name = ''updateFormFeedback'', fc_id = ''f1'',
          fc_args = \<lparr> arg_status = ''incorrect'', arg_feedback = ''Lower Hips'',
                      arg_focusArea = ''hips'' \<rparr> \<rparr>] connected_session) =
     \<lparr> status = ''incorrect'', feedback = ''Lower Hips'', focusArea = ''hips'',
       lastUpdated = 7 \<rparr> \<and>
   sent (functionCalls plan3 7
       [\<lparr> fc_name = ''updateFormFeedback'', fc_id = ''f1'',
          fc_args = \<lparr> arg_status = ''incorrect'', arg_feedback = ''Lower Hips'',
                      arg_focusArea = ''hips'' \<rparr> \<rparr>] connected_session) =
     sent connected_session @ [ToolResponse ''updateFormFeedback'' ''f1'' ''Overlay updated'']"
proof -
  have ses: "sessionPromiseRef connected_session = Some 0"
    by (simp add: connected_session_eval)
  have nm: "fc_name \<lparr> fc_name = ''updateFormFeedback'', fc_id = ''f1'',
             fc_args = \<lparr> arg_status = ''incorrect'', arg_feedback = ''Lower Hips'',
                         arg_focusArea = ''hips'' \<rparr> \<rparr> = ''updateFormFeedback''"
    by simp
  from feedback_applied [OF nm ses, where plan = plan3 and now = 7] ses
  show ?thesis
    by simp
qed

text \<open>
  The claim as first stated fails: an invocation whose status and focus area are outside
  the declared value sets is not rejected; the overlay state after it differs from the
  overlay state before it and holds the undeclared values.
\<close>

theorem feedback_unvalidated_counterexample:
  "''banana'' \<notin> FormStatus \<and> ''elbow'' \<notin> FocusArea \<and>
   overlayStateRef (step plan3 granting
       (Message 0 7 (feedback_message ''f1'' ''banana'' ''Hello'' ''elbow'')) connected_session) =
     \<lparr> status = ''banana'', feedback = ''Hello'', focusArea = ''elbow'', lastUpdated = 7 \<rparr> \<and>
   overlayStateRef (step plan3 granting
       (Message 0 7 (feedback_message ''f1'' ''banana'' ''Hello'' ''elbow'')) connected_session)
     \<noteq> overlayStateRef connected_session"
  by (simp add: FormStatus_def FocusArea_def connected_session_eval feedback_message_def
      handler_defs)

section \<open>Properties of connecting, capturing and tearing down\<close>

lemma connectToLive_guard:
  "closure_connectionStatus c \<noteq> Disconnected \<Longrightarrow> connectToLive env c s = s"
  by (cases "closure_connectionStatus c") (simp_all add: connectToLive_def)

lemma connectToLive_enters:
  "closure_connectionStatus c = Disconnected \<Longrightarrow>
   take (Suc (length (statusLog s))) (statusLog (connectToLive env c s)) = statusLog s @ [Connecting]"
  by (simp add: connectToLive_def setConnectionStatus_def Let_def)

text \<open>
  Claim C8 at a concrete session. The component mounts and asks for the camera; the
  microphone button is pressed before the request is answered, so a second run of
  \<^verbatim>\<open>startCamera\<close> waits beside the first, and the \<^verbatim>\<open>connectToLive\<close> of either render
  holds the status disconnected. The first answer calls \<^verbatim>\<open>connectToLive\<close>: the status is
  connecting. The second answer calls \<^verbatim>\<open>connectToLive\<close> while the status is connecting:
  the call is not a no-op, it sets the status again, creates the audio contexts again and
  asks for the microphone again, and once both microphone requests are answered two
  channels have been opened.
\<close>

theorem connect_while_connecting:
  "connectionStatus (run plan3 granting [Mount, MicButton, CameraAnswer] (initial 0)) = Connecting \<and>
   statusLog (run plan3 granting [Mount, MicButton, CameraAnswer] (initial 0)) = [Connecting] \<and>
   pendingCamera (run plan3 granting [Mount, MicButton, CameraAnswer] (initial 0)) =
     [\<lparr> closure_currentStep = 0, closure_micActive = False,
        closure_connectionStatus = Disconnected \<rparr>] \<and>
   length (pendingMicrophone (run plan3 granting [Mount, MicButton, CameraAnswer] (initial 0))) = 1 \<and>
   statusLog (run plan3 granting [Mount, MicButton, CameraAnswer, CameraAnswer] (initial 0)) =
     [Connecting, Connecting] \<and>
   length (pendingMicrophone
             (run plan3 granting [Mount, MicButton, CameraAnswer, CameraAnswer] (initial 0))) = 2 \<and>
   channels (run plan3 granting [Mount, MicButton, CameraAnswer, CameraAnswer] (initial 0)) = 0 \<and>
   channels (run plan3 granting
               [Mount, MicButton, CameraAnswer, CameraAnswer, MicrophoneAnswer, MicrophoneAnswer]
               (initial 0)) = 2 \<and>
   sessionPromiseRef (run plan3 granting
               [Mount, MicButton, CameraAnswer, CameraAnswer, MicrophoneAnswer, MicrophoneAnswer]
               (initial 0)) = Some 1"
  by (simp add: initial_def granting_def handler_defs)

text \<open>
  Claim C5 at a concrete session. With the channel open and the microphone enabled, a
  captured chunk is encoded and transmitted. After the microphone button is pressed no
  chunk is transmitted. After it is pressed again the flag is enabled and the channel is
  still connected, but the capture context has been closed by the effect cleanup that the
  change of \<^verbatim>\<open>micActive\<close> triggers, and \<^verbatim>\<open>connectToLive\<close> returns early instead of
  installing a new handler: the next chunk is not transmitted, before the camera
  requests of the two renders are answered and after. The handler that is installed
  holds the flag of the render that created it: called while the flag of the state is
  disabled, it transmits.
\<close>

theorem mic_reenabled_silent:
  "audio_sent (sent (run plan3 granting [AudioProcess [1 / 2]] connected_session)) = [''AEA=''] \<and>
   micActive (run plan3 granting [MicButton] connected_session) = False \<and>
   audio_sent (sent (run plan3 granting [MicButton, AudioProcess [1 / 2]] connected_session)) = [] \<and>
   micActive (run plan3 granting [MicButton, MicButton] connected_session) = True \<and>
   connectionStatus (run plan3 granting [MicButton, MicButton] connected_session) = Connected \<and>
   inputAudioContextRef (run plan3 granting [MicButton, MicButton] connected_session)
     = Some Released \<and>
   audio_sent (sent (run plan3 granting [MicButton, MicButton, AudioProcess [1 / 2]]
                       connected_session)) = [] \<and>
   audio_sent (sent (onaudioprocess True [1 / 2] (connected_session\<lparr> micActive := False \<rparr>)))
     = [''AEA=''] \<and>
   micActive (run plan3 granting [MicButton, CameraAnswer, MicButton, CameraAnswer]
                connected_session) = True \<and>
   pendingCamera (run plan3 granting [MicButton, CameraAnswer, MicButton, CameraAnswer]
                    connected_session) = [] \<and>
   inputAudioContextRef (run plan3 granting [MicButton, CameraAnswer, MicButton, CameraAnswer]
                           connected_session) = Some Released \<and>
   audio_sent (sent (run plan3 granting
                       [MicButton, CameraAnswer, MicButton, CameraAnswer, AudioProcess [1 / 2]]
                       connected_session)) = []"
  by (simp add: connected_session_eval granting_def handler_defs createPcmBlob_def ToInt16_def
      js_truncate_def fromCharCode_def b64_char_def char_of_eq_iff)

theorem mic_reenabled_silent_witness:
  "micActive (run plan3 granting [MicButton, MicButton] connected_session) = True \<and>
   audio_sent (sent (run plan3 granting [MicButton, MicButton, AudioProcess [1 / 2]]
                       connected_session)) = []"
  using mic_reenabled_silent by blast

text \<open>
  The capture handler itself gates on the flag its closure holds: with that flag off, or
  with no session, a chunk leaves the state as it is and nothing is sent; with the flag
  on and a session, exactly one message is sent, the encoded chunk tagged with the
  capture rate.
\<close>

theorem capture_gate:
  "(\<not> captured \<or> sessionPromiseRef s = None \<longrightarrow> onaudioprocess captured inputData s = s) \<and>
   (captured \<and> sessionPromiseRef s \<noteq> None \<longrightarrow>
      sent (onaudioprocess captured inputData s) =
        sent s @ [RealtimeInput ''audio/pcm;rate=16000'' (fst (createPcmBlob inputData))])"
  by (auto simp: onaudioprocess_def with_session_def createPcmBlob_def Let_def)

theorem capture_gate_witness:
  "sessionPromiseRef connected_session \<noteq> None \<and>
   onaudioprocess False [1 / 2] connected_session = connected_session \<and>
   sent (onaudioprocess True [1 / 2] connected_session) =
     sent connected_session
     @ [RealtimeInput ''audio/pcm;rate=16000'' (fst (createPcmBlob [1 / 2]))]"
proof -
  have "sessionPromiseRef connected_session \<noteq> None"
    by (simp add: connected_session_eval)
  with capture_gate [of False connected_session "[1 / 2]"]
    capture_gate [of True connected_session "[1 / 2]"]
  show ?thesis
    by blast
qed

lemma cleanup_capture:
  "inputAudioContextRef s \<noteq> None \<Longrightarrow> inputAudioContextRef (cleanup s) = Some Released"
  by (cases "srcObject s"; cases "audioContextRef s"; cases "poseInstanceRef s"; cases "videoRef s")
     (simp_all add: cleanup_def Let_def)

lemma cleanup_frame2:
  "micActive (cleanup s) = micActive s" "callbacks (cleanup s) = callbacks s"
  "connectionStatus (cleanup s) = connectionStatus s" "pendingCamera (cleanup s) = pendingCamera s"
  "sent (cleanup s) = sent s"
  by (simp_all add: cleanup_def Let_def)

lemma startCamera_resume_guarded:
  "pendingCamera s = [c] \<Longrightarrow> closure_connectionStatus c \<noteq> Disconnected \<Longrightarrow>
   inputAudioContextRef (startCamera_resume env s) = inputAudioContextRef s \<and>
   callbacks (startCamera_resume env s) = callbacks s \<and>
   sent (startCamera_resume env s) = sent s \<and>
   micActive (startCamera_resume env s) = micActive s \<and>
   currentStep (startCamera_resume env s) = currentStep s"
  by (simp add: startCamera_resume_def connectToLive_guard Let_def)

lemma audioprocess_closed:
  "inputAudioContextRef s = Some Released \<Longrightarrow> step plan env (AudioProcess inputData) s = s"
  by (simp add: step_def commit_def split: option.splits)

text \<open>
  In every session that is connecting or connected, holds a capture context and has no
  camera request waiting, pressing the microphone button closes that context; the
  \<^verbatim>\<open>connectToLive\<close> called when the camera request of the new render is answered installs
  no new handler, so the next captured chunk sends nothing, whichever way the flag was
  switched.
\<close>

theorem mic_button_ends_capture:
  assumes "connectionStatus s \<noteq> Disconnected" and "inputAudioContextRef s \<noteq> None"
    and "pendingCamera s = []"
  shows "micActive (step plan env MicButton s) = (\<not> micActive s) \<and>
         inputAudioContextRef (step plan env MicButton s) = Some Released \<and>
         callbacks (step plan env MicButton s) = callbacks s \<and>
         sent (step plan env (AudioProcess inputData) (step plan env MicButton s))
           = sent (step plan env MicButton s) \<and>
         inputAudioContextRef (run plan env [MicButton, CameraAnswer] s) = Some Released \<and>
         callbacks (run plan env [MicButton, CameraAnswer] s) = callbacks s \<and>
         sent (run plan env [MicButton, CameraAnswer, AudioProcess inputData] s) = sent s"
proof -
  let ?s1 = "cleanup (s\<lparr> micActive := \<not> micActive s \<rparr>)"
  let ?c = "render_closure (s\<lparr> micActive := \<not> micActive s \<rparr>)"
  let ?s2 = "step plan env MicButton s"
  let ?s3 = "step plan env CameraAnswer ?s2"
  have st: "?s2 = startCamera ?c ?s1"
    by (simp add: step_def commit_def)
  from assms have s1: "connectionStatus ?s1 \<noteq> Disconnected"
    "inputAudioContextRef ?s1 = Some Released"
    "micActive ?s1 = (\<not> micActive s)" "callbacks ?s1 = callbacks s"
    "pendingCamera ?s1 = []" "sent ?s1 = sent s"
    by (simp_all add: cleanup_frame2 cleanup_capture)
  then have a: "inputAudioContextRef ?s2 = Some Released"
    and b: "micActive ?s2 = (\<not> micActive s)"
    and c: "callbacks ?s2 = callbacks s"
    and d: "pendingCamera ?s2 = [?c]"
    and e: "sent ?s2 = sent s"
    by (simp_all add: st startCamera_def)
  from assms have g: "closure_connectionStatus ?c \<noteq> Disconnected"
    by (simp add: render_closure_def)
  note r = startCamera_resume_guarded [OF d g, of env]
  from r have "?s3 = startCamera_resume env ?s2"
    by (simp add: step_def [of plan env CameraAnswer] commit_def)
  with r a c e have f: "inputAudioContextRef ?s3 = Some Released"
    and h: "callbacks ?s3 = callbacks s" and i: "sent ?s3 = sent s"
    by simp_all
  from a have j: "step plan env (AudioProcess inputData) ?s2 = ?s2"
    by (rule audioprocess_closed)
  from f have k: "step plan env (AudioProcess inputData) ?s3 = ?s3"
    by (rule audioprocess_closed)
  from a b c f h i j k show ?thesis
    by simp
qed

theorem mic_button_ends_capture_witness:
  "connectionStatus connected_session \<noteq> Disconnected \<and>
   inputAudioContextRef connected_session \<noteq> None \<and>
   pendingCamera connected_session = [] \<and>
   micActive connected_session \<and>
   micActive (step plan3 granting MicButton connected_session) = (\<not> micActive connected_session) \<and>
   inputAudioContextRef (step plan3 granting MicButton connected_session) = Some Released \<and>
   sent (step plan3 granting (AudioProcess [1 / 2]) (step plan3 granting MicButton connected_session))
     = sent (step plan3 granting MicButton connected_session) \<and>
   sent (run plan3 granting [MicButton, CameraAnswer, AudioProcess [1 / 2]] connected_session)
     = sent connected_session"
proof -
  have a: "connectionStatus connected_session \<noteq> Disconnected"
    and b: "inputAudioContextRef connected_session \<noteq> None"
    and p: "pendingCamera connected_session = []"
    and c: "micActive connected_session"
    by (simp_all add: connected_session_eval)
  from mic_button_ends_capture [OF a b p, of plan3 granting "[1 / 2]"] a b c p
  show ?thesis
    by blast
qed

text \<open>
  Claim C6, as amended. The cleanup that runs at exit closes, in this order and each only
  when its reference is set: the playback context, the capture context, the pose tracker.
  It does not close the remote session: the connection status, the session reference,
  the channels and the messages sent are unchanged. It reads no connection status, so it
  does the same in every connection state. A second run repeats the close calls of the
  first on the resources already released, since no reference is cleared, and leaves
  each of them as the first run left it. The statement is about the close calls only.
\<close>

theorem exit_teardown:
  "closes (teardown (unmount s)) =
     closes (teardown s)
     @ (if audioContextRef s \<noteq> None then [ClosePlaybackContext] else [])
     @ (if inputAudioContextRef s \<noteq> None then [CloseCaptureContext] else [])
     @ (if poseInstanceRef s \<noteq> None then [ClosePose] else []) \<and>
   audioContextRef (unmount s) = map_option (\<lambda>_. Released) (audioContextRef s) \<and>
   inputAudioContextRef (unmount s) = map_option (\<lambda>_. Released) (inputAudioContextRef s) \<and>
   poseInstanceRef (unmount s) = map_option (\<lambda>_. Released) (poseInstanceRef s) \<and>
   connectionStatus (unmount s) = connectionStatus s \<and>
   sessionPromiseRef (unmount s) = sessionPromiseRef s \<and>
   channels (unmount s) = channels s \<and>
   sent (unmount s) = sent s \<and>
   audioContextRef (unmount (unmount s)) = audioContextRef (unmount s) \<and>
   inputAudioContextRef (unmount (unmount s)) = inputAudioContextRef (unmount s) \<and>
   poseInstanceRef (unmount (unmount s)) = poseInstanceRef (unmount s) \<and>
   closes (teardown (unmount (unmount s))) =
     closes (teardown (unmount s))
     @ (if audioContextRef s \<noteq> None then [ClosePlaybackContext] else [])
     @ (if inputAudioContextRef s \<noteq> None then [CloseCaptureContext] else [])
     @ (if poseInstanceRef s \<noteq> None then [ClosePose] else [])"
  by (cases "audioContextRef s"; cases "inputAudioContextRef s"; cases "poseInstanceRef s")
     (simp_all add: unmount_def cleanup_def closes_def Let_def)

theorem exit_teardown_witness:
  "closes (teardown (unmount connected_session))
     = [ClosePlaybackContext, CloseCaptureContext, ClosePose] \<and>
   connectionStatus (run plan3 granting [Mount, CameraAnswer] (initial 0)) = Connecting \<and>
   closes (teardown (unmount (run plan3 granting [Mount, CameraAnswer] (initial 0))))
     = [ClosePlaybackContext, CloseCaptureContext, ClosePose] \<and>
   connectionStatus (unmount (run plan3 granting [Mount, CameraAnswer] (initial 0))) = Connecting \<and>
   closes (teardown (unmount (initial 0))) = []"
proof -
  have m: "connectionStatus (run plan3 granting [Mount, CameraAnswer] (initial 0)) = Connecting"
    "audioContextRef (run plan3 granting [Mount, CameraAnswer] (initial 0)) = Some Active"
    "inputAudioContextRef (run plan3 granting [Mount, CameraAnswer] (initial 0)) = Some Active"
    "poseInstanceRef (run plan3 granting [Mount, CameraAnswer] (initial 0)) = Some Active"
    "teardown (run plan3 granting [Mount, CameraAnswer] (initial 0)) = []"
    by (simp_all add: initial_def granting_def handler_defs)
  note a = exit_teardown [of connected_session]
  note b = exit_teardown [of "run plan3 granting [Mount, CameraAnswer] (initial 0)"]
  note c = exit_teardown [of "initial 0"]
  from a have a': "closes (teardown (unmount connected_session))
     = [ClosePlaybackContext, CloseCaptureContext, ClosePose]"
    by (simp add: connected_session_eval closes_def)
  from b m have b': "closes (teardown (unmount (run plan3 granting [Mount, CameraAnswer] (initial 0))))
     = [ClosePlaybackContext, CloseCaptureContext, ClosePose]"
    "connectionStatus (unmount (run plan3 granting [Mount, CameraAnswer] (initial 0))) = Connecting"
    by (simp_all add: closes_def)
  from c have c': "closes (teardown (unmount (initial 0))) = []"
    by (simp add: initial_def closes_def)
  from a' b' c' m show ?thesis
    by blast
qed

text \<open>
  The claim as first stated fails: after the exit of a connected session the status is
  still connected, the session reference is still set and the channel still carries what
  is sent on it. The close calls are not guarded against repetition: a session whose
  microphone button was pressed has had its contexts and its pose tracker closed by the
  cleanup between the two renders, and its exit closes them again.
\<close>

theorem exit_session_counterexample:
  "connectionStatus connected_session = Connected \<and>
   sessionPromiseRef connected_session = Some 0 \<and>
   closes (teardown (unmount connected_session))
     = [ClosePlaybackContext, CloseCaptureContext, ClosePose] \<and>
   connectionStatus (unmount connected_session) = Connected \<and>
   sessionPromiseRef (unmount connected_session) = Some 0 \<and>
   sent (handleNextStep plan3 ''call-1'' (unmount connected_session))
     = sent connected_session
       @ [ToolResponse ''nextExercise'' ''call-1'' ''Moved to next'', SendText ''Next up: Plank.''] \<and>
   closes (teardown (run plan3 granting [MicButton, Unmount] connected_session))
     = [ClosePlaybackContext, CloseCaptureContext, ClosePose,
        ClosePlaybackContext, CloseCaptureContext, ClosePose] \<and>
   closes (teardown (unmount (unmount connected_session)))
     = [ClosePlaybackContext, CloseCaptureContext, ClosePose,
        ClosePlaybackContext, CloseCaptureContext, ClosePose]"
  by (simp add: connected_session_eval plan3_def closes_def handler_defs)

text \<open>
  What the exit does to the camera, which the statements above leave open. The cleanup
  between two renders finds the video element and stops the tracks of its stream; the
  cleanup at exit finds the reference to the element cleared, stops nothing, and the
  stream stays live.
\<close>

lemma exit_keeps_camera:
  "teardown (cleanup connected_session)
     = [StopTracks, ClosePlaybackContext, CloseCaptureContext, ClosePose] \<and>
   srcObject (cleanup connected_session) = Some Released \<and>
   teardown (unmount connected_session)
     = [ClosePlaybackContext, CloseCaptureContext, ClosePose] \<and>
   srcObject (unmount connected_session) = Some Active"
  by (simp add: connected_session_eval handler_defs)

section \<open>Properties of the overlay renderer\<close>

lemma callout_drawn_append [simp]:
  "callout_drawn (xs @ ys) = (callout_drawn xs \<or> callout_drawn ys)"
  by (simp add: callout_drawn_def)

lemma callout_drawn_Cons [simp]:
  "callout_drawn (x # xs) = (is_arc x \<or> callout_drawn xs)"
  by (simp add: callout_drawn_def)

lemma callout_drawn_simps [simp]:
  "\<not> callout_drawn []"
  "\<not> callout_drawn (corners w h)"
  "\<not> callout_drawn (skeleton r c lms)"
  "callout_drawn (callout c fb tx ty)"
  by (simp_all add: callout_drawn_def corners_def skeleton_def callout_def)










section \<open>Properties of the audio codec\<close>

text \<open>
  Claim C1 at the full-scale sample. The sample 1 is in range; times 32768 it is 32768,
  which wraps to -32768 in the 16-bit array, so it is encoded as the bytes 00 80 and
  decodes to -1: the round trip is off by 2, not by at most 1/32768.
\<close>

theorem full_scale_sample_wraps:
  "createPcmBlob [1] = (''AIA='', ''audio/pcm;rate=16000'') \<and>
   decodeAudioData (fst (createPcmBlob [1]))
     = Inr \<lparr> channelData = [- 1], sampleRate = 24000 \<rparr> \<and>
   \<not> \<bar>(1 :: real) - (- 1)\<bar> \<le> 1 / 32768"
proof -
  have enc: "createPcmBlob [1] = (''AIA='', ''audio/pcm;rate=16000'')"
    by (simp add: createPcmBlob_def ToInt16_def js_truncate_def fromCharCode_def b64_char_def
        char_of_eq_iff)
  then show ?thesis
    by (simp add: decode_AIA)
qed

subsection \<open>The round trip below full scale\<close>

text \<open>The sextets that \<^verbatim>\<open>btoa\<close> writes for a byte string, before padding.\<close>

fun sextets_of :: "string \<Rightarrow> nat list" where
  "sextets_of [] = []"
| "sextets_of [a] = (let x = (of_char a :: nat) in [x div 4, x mod 4 * 16])"
| "sextets_of [a, b] =
     (let x = (of_char a :: nat); y = (of_char b :: nat)
      in [x div 4, x mod 4 * 16 + y div 16, y mod 16 * 4])"
| "sextets_of (a # b # c # rest) =
     (let x = (of_char a :: nat); y = (of_char b :: nat); z = (of_char c :: nat)
      in x div 4 # (x mod 4 * 16 + y div 16) # (y mod 16 * 4 + z div 64) # z mod 64 #
         sextets_of rest)"

lemma of_char_less: "(of_char c :: nat) < 256"
  by (metis of_char_mod_256 mod_less_divisor zero_less_numeral)

lemma b64_value_char: "n < 64 \<Longrightarrow> b64_value (b64_char n) = Some n"
  by (auto simp: b64_value_def b64_char_def Let_def char_of_eq_iff take_bit_eq_mod)

lemma b64_char_not_pad: "n < 64 \<Longrightarrow> b64_char n \<noteq> CHR ''=''"
  using b64_value_char [of n] by (auto simp: b64_value_def Let_def)

lemma b64_char_not_ws: "n < 64 \<Longrightarrow> \<not> ascii_whitespace (b64_char n)"
  using b64_value_char [of n]
  by (auto simp: b64_value_def ascii_whitespace_def Let_def split: if_splits)

lemma sextet_bounds:
  fixes x y z :: nat
  assumes "x < 256" "y < 256" "z < 256"
  shows "x div 4 < 64" "x mod 4 * 16 < 64" "x mod 4 * 16 + y div 16 < 64"
    "y mod 16 * 4 < 64" "y mod 16 * 4 + z div 64 < 64" "z mod 64 < 64"
  using assms by arith+

lemma sextets_of_less: "v \<in> set (sextets_of s) \<Longrightarrow> v < 64"
proof (induction s arbitrary: v rule: sextets_of.induct)
  case 1
  then show ?case by simp
next
  case (2 a)
  with sextet_bounds [OF of_char_less [of a] of_char_less [of a] of_char_less [of a]]
  show ?case by (auto simp: Let_def)
next
  case (3 a b)
  with sextet_bounds [OF of_char_less [of a] of_char_less [of b] of_char_less [of b]]
  show ?case by (auto simp: Let_def)
next
  case (4 a b c rest)
  with sextet_bounds [OF of_char_less [of a] of_char_less [of b] of_char_less [of c]]
  show ?case by (auto simp: Let_def)
qed

lemma length_btoa: "length (btoa s) mod 4 = 0"
  by (induction s rule: btoa.induct) (simp_all add: Let_def)

lemma btoa_Nil: "(btoa s = []) = (s = [])"
  by (induction s rule: btoa.induct) (simp_all add: Let_def)

lemma those_b64: "(\<And>v. v \<in> set vs \<Longrightarrow> v < 64) \<Longrightarrow> those (map b64_value (map b64_char vs)) = Some vs"
  by (induction vs) (simp_all add: b64_value_char)

lemma length_sextets_of: "length (sextets_of s) mod 4 \<noteq> 1"
  by (induction s rule: sextets_of.induct) (simp_all add: Let_def)

lemma sextet_join:
  fixes x y z :: nat
  assumes "x < 256" "y < 256" "z < 256"
  shows "x div 4 * 4 + (x mod 4 * 16) div 16 = x"
    "x div 4 * 4 + (x mod 4 * 16 + y div 16) div 16 = x"
    "(x mod 4 * 16 + y div 16) mod 16 * 16 + (y mod 16 * 4) div 4 = y"
    "(x mod 4 * 16 + y div 16) mod 16 * 16 + (y mod 16 * 4 + z div 64) div 4 = y"
    "(y mod 16 * 4 + z div 64) mod 4 * 64 + z mod 64 = z"
  using assms by simp_all

lemma sextets_bytes_of: "sextets_bytes (sextets_of s) = map of_char s"
proof (induction s rule: sextets_of.induct)
  case 1
  then show ?case by simp
next
  case (2 a)
  from sextet_join [OF of_char_less [of a] of_char_less [of a] of_char_less [of a]]
  show ?case by (simp only: sextets_of.simps Let_def sextets_bytes.simps list.map)
next
  case (3 a b)
  from sextet_join [OF of_char_less [of a] of_char_less [of b] of_char_less [of b]]
  show ?case by (simp only: sextets_of.simps Let_def sextets_bytes.simps list.map)
next
  case (4 a b c rest)
  from sextet_join [OF of_char_less [of a] of_char_less [of b] of_char_less [of c]] 4
  show ?case by (simp only: sextets_of.simps Let_def sextets_bytes.simps list.map)
qed

lemma pad_not_ws: "\<not> ascii_whitespace (CHR ''='')"
  by (simp add: ascii_whitespace_def)

lemma btoa_no_ws: "filter (\<lambda>c. \<not> ascii_whitespace c) (btoa s) = btoa s"
proof (induction s rule: btoa.induct)
  case 1
  then show ?case by simp
next
  case (2 a)
  from sextet_bounds [OF of_char_less [of a] of_char_less [of a] of_char_less [of a]]
  show ?case by (simp add: Let_def b64_char_not_ws pad_not_ws)
next
  case (3 a b)
  from sextet_bounds [OF of_char_less [of a] of_char_less [of b] of_char_less [of b]]
  show ?case by (simp add: Let_def b64_char_not_ws pad_not_ws)
next
  case (4 a b c rest)
  from sextet_bounds [OF of_char_less [of a] of_char_less [of b] of_char_less [of c]] 4
  show ?case by (simp add: Let_def b64_char_not_ws pad_not_ws)
qed

lemma strip_padding_Cons4:
  assumes "ys \<noteq> []" and "length ys mod 4 = 0"
  shows "strip_padding (a # b # c # d # ys) = a # b # c # d # strip_padding ys"
proof -
  from assms have "length ys \<noteq> 0" and "length ys mod 4 = 0"
    by simp_all
  then have "4 \<le> length ys"
    by arith
  then have "butlast ys \<noteq> []"
    by (cases ys) auto
  with assms show ?thesis
    by (simp add: strip_padding_def)
qed

lemma strip_padding_btoa: "strip_padding (btoa s) = map b64_char (sextets_of s)"
proof (induction s rule: btoa.induct)
  case 1
  then show ?case by (simp add: strip_padding_def)
next
  case (2 a)
  from sextet_bounds [OF of_char_less [of a] of_char_less [of a] of_char_less [of a]]
  show ?case by (simp add: Let_def strip_padding_def)
next
  case (3 a b)
  from sextet_bounds [OF of_char_less [of a] of_char_less [of b] of_char_less [of b]]
  show ?case by (simp add: Let_def strip_padding_def b64_char_not_pad)
next
  case (4 a b c rest)
  note bounds = sextet_bounds [OF of_char_less [of a] of_char_less [of b] of_char_less [of c]]
  show ?case
  proof (cases "rest = []")
    case True
    with bounds show ?thesis
      by (simp add: Let_def strip_padding_def b64_char_not_pad)
  next
    case False
    then have "btoa rest \<noteq> []"
      by (simp add: btoa_Nil)
    with 4 show ?thesis
      by (simp add: Let_def strip_padding_Cons4 length_btoa)
  qed
qed

lemma atob_btoa: "atob (btoa s) = Inr s"
proof -
  have "those (map b64_value (map b64_char (sextets_of s))) = Some (sextets_of s)"
    by (rule those_b64) (rule sextets_of_less)
  moreover have "map char_of (sextets_bytes (sextets_of s)) = s"
    by (simp add: sextets_bytes_of comp_def)
  ultimately show ?thesis
    using length_sextets_of [of s]
    by (simp add: atob_def btoa_no_ws strip_padding_btoa Let_def)
qed

lemma w_join: "(ucast (ucast (w :: 16 word) :: 8 word) :: 16 word) + push_bit 8 (ucast (ucast (drop_bit 8 w) :: 8 word)) = w"
proof -
  have "(ucast (ucast w :: 8 word) :: 16 word) + push_bit 8 (ucast (ucast (drop_bit 8 w) :: 8 word))
      = (ucast (ucast w :: 8 word) :: 16 word) OR push_bit 8 (ucast (ucast (drop_bit 8 w) :: 8 word))"
    by (rule disjunctive_add) (auto simp: bit_simps)
  also have "\<dots> = w"
    by (rule bit_word_eqI) (auto simp: bit_simps)
  finally show ?thesis .
qed

lemma Int16Array_of_Uint8Array_of: "Int16Array_of (Uint8Array_of ws) = Inr ws"
  by (induction ws) (simp_all add: w_join)

lemma charCodeAt_fromCharCode: "charCodeAt (fromCharCode b) = b"
proof -
  have "unat b < 256" using unsigned_less [of b, where 'a = nat] by simp
  then show ?thesis by (simp add: charCodeAt_def fromCharCode_def)
qed

lemma sint_ToInt16:
  assumes "- 32768 \<le> y" and "y < 32768"
  shows "sint (ToInt16 y) = js_truncate y"
proof -
  from assms have "- 32768 \<le> js_truncate y \<and> js_truncate y < 32768"
    by (simp add: js_truncate_def)
  then show ?thesis
    by (simp add: ToInt16_def sint_sbintrunc' signed_take_bit_int_eq_self)
qed

lemma signed_ToInt16:
  assumes "- 32768 \<le> y" and "y < 32768"
  shows "(signed (ToInt16 y) :: real) = real_of_int (js_truncate y)"
proof -
  have "(signed (ToInt16 y) :: real) = real_of_int (sint (ToInt16 y))"
    by (simp only: of_int_sint)
  then show ?thesis
    by (simp only: sint_ToInt16 [OF assms])
qed

lemma js_truncate_close: "\<bar>real_of_int (js_truncate y) - y\<bar> < 1"
  by (simp add: js_truncate_def) linarith

text \<open>The quantised value of a sample: what a sample in range comes back as.\<close>

definition quantise :: "real \<Rightarrow> real" where
  "quantise x = real_of_int (js_truncate (x * 32768)) / 32768"

lemma quantise_close: "\<bar>quantise x - x\<bar> < 1 / 32768"
proof -
  have "\<bar>real_of_int (js_truncate (x * 32768)) - x * 32768\<bar> < 1"
    by (rule js_truncate_close)
  then have "\<bar>real_of_int (js_truncate (x * 32768)) - x * 32768\<bar> / 32768 < 1 / 32768"
    by (simp add: divide_strict_right_mono)
  moreover have "\<bar>real_of_int (js_truncate (x * 32768)) - x * 32768\<bar> / 32768
      = \<bar>quantise x - x\<bar>"
    by (simp add: quantise_def field_simps abs_divide)
  ultimately show ?thesis by simp
qed

text \<open>
  Below full scale the round trip is within one quantisation step. For a non-empty
  sequence of samples, each at least -1 and below 1, decoding the encoded blob succeeds
  and yields, sample by sample, the quantised value, which differs from the original by
  less than 1/32768. The full-scale sample 1 is the only sample of the range [-1, 1]
  left out.
\<close>

theorem roundtrip_below_full_scale:
  assumes "xs \<noteq> []" and "\<forall>x \<in> set xs. - 1 \<le> x \<and> x < 1"
  shows "decodeAudioData (fst (createPcmBlob xs))
           = Inr \<lparr> channelData = map quantise xs, sampleRate = PCM_SAMPLE_RATE \<rparr> \<and>
         (\<forall>i < length xs. \<bar>map quantise xs ! i - xs ! i\<bar> < 1 / 32768)"
proof -
  have "map (\<lambda>w. real_of_int (sint w) / 32768) (map (\<lambda>x. ToInt16 (x * 32768)) xs) = map quantise xs"
    using assms(2) by (auto simp: quantise_def signed_ToInt16)
  moreover have "map charCodeAt (map fromCharCode bs) = bs" for bs
    by (simp add: comp_def charCodeAt_fromCharCode)
  ultimately have dec: "decodeAudioData (fst (createPcmBlob xs))
      = Inr \<lparr> channelData = map quantise xs, sampleRate = PCM_SAMPLE_RATE \<rparr>"
    using assms(1)
    by (simp add: decodeAudioData_def createPcmBlob_def Let_def atob_btoa
        Int16Array_of_Uint8Array_of del: map_map)
  have "\<bar>map quantise xs ! i - xs ! i\<bar> < 1 / 32768" if "i < length xs" for i
    using that quantise_close [of "xs ! i"] by (simp only: nth_map)
  with dec show ?thesis
    by blast
qed

theorem roundtrip_below_full_scale_witness:
  "[1 / 2, - 1] \<noteq> ([] :: real list) \<and>
   - 1 \<le> (1 / 2 :: real) \<and> (1 / 2 :: real) < 1 \<and> - 1 \<le> (- 1 :: real) \<and> (- 1 :: real) < 1 \<and>
   decodeAudioData (fst (createPcmBlob [1 / 2, - 1]))
     = Inr \<lparr> channelData = map quantise [1 / 2, - 1], sampleRate = PCM_SAMPLE_RATE \<rparr> \<and>
   (0 :: nat) < length [1 / 2, - 1 :: real] \<and>
   \<bar>map quantise [1 / 2, - 1] ! 0 - [1 / 2, - 1] ! 0\<bar> < 1 / 32768"
proof -
  have ne: "[1 / 2, - 1] \<noteq> ([] :: real list)"
    by simp
  have rng: "\<forall>x \<in> set [1 / 2, - 1 :: real]. - 1 \<le> x \<and> x < 1"
    by simp
  have len: "(0 :: nat) < length [1 / 2, - 1 :: real]"
    by simp
  have "- 1 \<le> (1 / 2 :: real) \<and> (1 / 2 :: real) < 1 \<and> - 1 \<le> (- 1 :: real) \<and> (- 1 :: real) < 1"
    by simp
  with roundtrip_below_full_scale [OF ne rng] ne len show ?thesis
    by blast
qed

end
